theory Spec2Isabelle
  imports Main
begin

section \<open>Data model of the Mollie payment service\<close>

text \<open>
  The service is glue code between the order framework and the payment provider. Its own
  logic is embedded below; every collaborator that lives outside the two source files (order
  service, payment-method service, entity hydrator, order state machine, provider client and
  the pure helpers of \<^verbatim>\<open>mollie.helpers\<close>) is a parameter, collected in the record
  \<open>services\<close>. The persistent state of the framework and of the provider is an abstract
  store \<open>'s\<close>; every outbound call is recorded in a trace, every log line in a log.
  Amounts are integer cents (\<open>int\<close>); identifiers are strings (\<open>idsAreEqual\<close> compares the
  string forms). \<open>await\<close> is sequential composition.
\<close>

type_synonym ident = string

text \<open>Modelled from the spec: the provider's order status enum is declared in the provider's
  client library; the spec lists open, authorized, paid, completed, canceled, expired and
  leaves the rest open, which is \<open>otherStatus\<close> here.\<close>

datatype OrderStatus =
  openStatus | authorized | paid | completed | canceled | expired | otherStatus string

text \<open>Modelled from the spec: the framework's order states; the six named in the spec and
  \<open>OtherState\<close> for every other (shipping, delivery, cancellation, custom states).\<close>

datatype OrderState =
  AddingItems | ArrangingPayment | ArrangingAdditionalPayment | PaymentAuthorized
  | PaymentSettled | Draft | OtherState string

datatype PaymentState = Authorized | Settled

record RequestContext =
  apiType :: string
  isAuthorized :: bool
  authorizedAsOwnerOnly :: bool
  channelToken :: string
  languageCode :: string

record ConfigArg =
  arg_name :: string
  arg_value :: string

record PaymentMethod =
  pm_id :: ident
  pm_code :: string
  handler_code :: string
  handler_args :: "ConfigArg list"

record MollieAmount =
  amt_value :: string
  amt_currency :: string

record MollieOrder =
  mo_id :: string
  mo_status :: OrderStatus
  mo_orderNumber :: string
  mo_amount :: MollieAmount
  mo_languageCode :: "string option"
  mo_mode :: "string option"
  mo_method :: "string option"
  mo_profileId :: "string option"
  mo_authorizedAt :: "string option"
  mo_paidAt :: "string option"
  mo_checkoutUrl :: "string option"

text \<open>\<^verbatim>\<open>Partial<MollieOrder>\<close>, the fields \<open>addPayment\<close> reads.\<close>

record MollieMetadata =
  md_id :: "string option"
  md_mode :: "string option"
  md_method :: "string option"
  md_profileId :: "string option"
  md_amount :: "MollieAmount option"
  md_authorizedAt :: "string option"
  md_paidAt :: "string option"

record Payment =
  payment_id :: ident
  transactionId :: string
  payment_amount :: int
  payment_state :: PaymentState

record Customer =
  firstName :: string
  lastName :: string

record OrderAddress =
  streetLine1 :: "string option"
  city :: "string option"
  postalCode :: "string option"
  country :: "string option"

record MollieAddress =
  ma_streetAndNumber :: string
  ma_city :: string
  ma_postalCode :: string
  ma_country :: string
  ma_givenName :: string
  ma_familyName :: string

record Order =
  order_id :: ident
  order_code :: string
  order_state :: OrderState
  orderPlacedAt :: "nat option"
  payments :: "Payment list"
  totalWithTax :: int
  currencyCode :: string
  customer :: "Customer option"
  billingAddress :: OrderAddress
  shippingAddress :: OrderAddress

record PaymentMetadata =
  pmd_amount :: int
  pmd_status :: PaymentState
  pmd_orderId :: "string option"
  pmd_mode :: "string option"
  pmd_method :: "string option"
  pmd_profileId :: "string option"
  pmd_settlementAmount :: "MollieAmount option"
  pmd_authorizedAt :: "string option"
  pmd_paidAt :: "string option"

record PaymentInput =
  pi_method :: string
  pi_metadata :: PaymentMetadata

record TransitionError =
  te_fromState :: OrderState
  te_toState :: OrderState
  te_message :: string

record ErrorResult =
  er_errorCode :: string
  er_message :: string

record PaymentMethodQuote =
  q_id :: ident
  q_isEligible :: bool

record MollieLine =
  ml_name :: string
  ml_quantity :: int
  ml_totalAmount :: MollieAmount

record CreateParameters =
  cp_orderNumber :: string
  cp_amount :: MollieAmount
  cp_redirectUrl :: string
  cp_webhookUrl :: string
  cp_billingAddress :: MollieAddress
  cp_locale :: string
  cp_lines :: "MollieLine list"
  cp_metadata_languageCode :: string
  cp_method :: "string option"

record OrderStatusInput =
  paymentMethodId :: string
  orderId :: string

record MolliePaymentIntentInput =
  in_paymentMethodCode :: "string option"
  in_molliePaymentMethodCode :: "string option"
  in_orderId :: "ident option"
  in_redirectUrl :: "string option"

text \<open>The messages of the typed error results of \<open>createPaymentIntent\<close>, with the
  values interpolated into them.\<close>

datatype intentMessage =
  MethodCodeNotAllowed "string list"
  | NoActiveOrderFound
  | NoPaymentMethodWithCode "string option"
  | NotEligibleForOrder string string
  | ThrownMessage string
  | NoFirstNameSet
  | NoLastNameSet
  | NoRedirectUrlGiven
  | NoApiKeyForMethod string
  | IncompleteAddress

datatype MolliePaymentIntentResult =
  PaymentIntentError intentMessage | InvalidInputError intentMessage | MolliePaymentIntent string

text \<open>Every \<^verbatim>\<open>throw Error(...)\<close> of the service, named as in the spec.\<close>

datatype error =
  NoApiKeyError ident
  | ProviderFetchError string
  | OrderNotFoundError string string
  | StateTransitionError string OrderState OrderState string
  | PaymentAttachError string string
  | PaymentNotFoundError string string
  | SettlementError ident string string string
  | UnhandledTransitionError OrderStatus string OrderState
  | ProviderCreateError string
  | NoCheckoutUrlError
  | EntityNotFoundError
  | RethrownError string

datatype logLevel = Info | Warn | Error

datatype logMsg =
  ReceivedStatusUpdate string string
  | NoPaymentMethodFound string
  | ProcessingStatus OrderStatus string string string
  | IgnoringStatus OrderStatus string
  | AlreadyPaidShouldRefund string string
  | NoNeedForHandling string OrderState OrderStatus
  | AutoCapturing string
  | NoApiKeyConfigured string
  | CreatedMollieOrder string string
  | FailedToSaveMollieOrderId

text \<open>The outbound calls of the service, in the order they are issued.\<close>

datatype call =
  PaymentMethodFindOne RequestContext ident
  | PaymentMethodFindAll RequestContext "string option"
  | MollieOrdersGet string string
  | MollieOrdersCreate string CreateParameters
  | OrderFindOneByCode RequestContext string
  | OrderFindOne RequestContext ident
  | GetActiveOrder RequestContext
  | GetEligiblePaymentMethods RequestContext ident
  | Hydrate RequestContext ident "string list"
  | StateMachineTransition RequestContext ident OrderState
  | TransitionToState RequestContext ident OrderState
  | AddPaymentToOrder RequestContext ident PaymentInput
  | SettlePayment RequestContext ident
  | UpdateCustomFields RequestContext ident string

record 's services =
  paymentMethodService_findOne :: "RequestContext \<Rightarrow> ident \<Rightarrow> 's \<Rightarrow> PaymentMethod option"
  paymentMethodService_findAll :: "RequestContext \<Rightarrow> string option \<Rightarrow> 's \<Rightarrow> PaymentMethod list"
  mollie_orders_get :: "string \<Rightarrow> string \<Rightarrow> 's \<Rightarrow> MollieOrder option"
  mollie_orders_create :: "string \<Rightarrow> CreateParameters \<Rightarrow> 's \<Rightarrow> MollieOrder option \<times> 's"
  orderService_findOneByCode :: "RequestContext \<Rightarrow> string \<Rightarrow> 's \<Rightarrow> Order option"
  orderService_findOne :: "RequestContext \<Rightarrow> ident \<Rightarrow> 's \<Rightarrow> Order option"
  activeOrderService_getActiveOrder :: "RequestContext \<Rightarrow> 's \<Rightarrow> Order option"
  orderService_getEligiblePaymentMethods ::
    "RequestContext \<Rightarrow> ident \<Rightarrow> 's \<Rightarrow> PaymentMethodQuote list"
  entityHydrator_hydrate :: "RequestContext \<Rightarrow> Order \<Rightarrow> string list \<Rightarrow> 's \<Rightarrow> Order"
  orderStateMachine_transition :: "RequestContext \<Rightarrow> Order \<Rightarrow> OrderState \<Rightarrow> 's \<Rightarrow> string option"
  orderService_transitionToState ::
    "RequestContext \<Rightarrow> ident \<Rightarrow> OrderState \<Rightarrow> 's \<Rightarrow> (TransitionError + Order) \<times> 's"
  orderService_addPaymentToOrder ::
    "RequestContext \<Rightarrow> ident \<Rightarrow> PaymentInput \<Rightarrow> 's \<Rightarrow> (string + Order) \<times> 's"
  orderService_settlePayment :: "RequestContext \<Rightarrow> ident \<Rightarrow> 's \<Rightarrow> (ErrorResult + Payment) \<times> 's"
  orderService_updateCustomFields :: "RequestContext \<Rightarrow> ident \<Rightarrow> string \<Rightarrow> 's \<Rightarrow> bool \<times> 's"
  allowedMethods :: "string list"
  molliePaymentHandler_code :: string
  options_vendureHost :: string
  amountToCents :: "MollieAmount \<Rightarrow> int"
  toAmount :: "int \<Rightarrow> string \<Rightarrow> MollieAmount"
  toMollieAddress :: "OrderAddress \<Rightarrow> Customer option \<Rightarrow> MollieAddress option"
  getLocale :: "string \<Rightarrow> string \<Rightarrow> string"
  toMollieOrderLines :: "Order \<Rightarrow> int \<Rightarrow> MollieLine list"
  totalCoveredByPayments :: "Order \<Rightarrow> int"

record 's world =
  store :: 's
  calls :: "call list"
  logs :: "(logLevel \<times> logMsg) list"

section \<open>The service\<close>

definition logger :: "logLevel \<Rightarrow> logMsg \<Rightarrow> 's world \<Rightarrow> 's world" where
  "logger l m w = w\<lparr>logs := logs w @ [(l, m)]\<rparr>"

definition issue :: "call \<Rightarrow> 's world \<Rightarrow> 's world" where
  "issue c w = w\<lparr>calls := calls w @ [c]\<rparr>"

text \<open>JavaScript truthiness of an optional string: \<^verbatim>\<open>undefined\<close> and \<^verbatim>\<open>''\<close> are falsy.\<close>

definition truthy :: "string option \<Rightarrow> string option" where
  "truthy v = (case v of None \<Rightarrow> None | Some s \<Rightarrow> if s = [] then None else Some s)"

text \<open>\<^verbatim>\<open>paymentMethod.handler.args.find(a => a.name === n)?.value\<close>\<close>

definition argValue :: "string \<Rightarrow> PaymentMethod \<Rightarrow> string option" where
  "argValue n pm = map_option arg_value (find (\<lambda>a. arg_name a = n) (handler_args pm))"

definition adminCtx :: "RequestContext \<Rightarrow> string \<Rightarrow> RequestContext" where
  "adminCtx ctx lang =
     \<lparr>apiType = ''admin'', isAuthorized = True, authorizedAsOwnerOnly = False,
      channelToken = channelToken ctx, languageCode = lang\<rparr>"

definition partialOrder :: "MollieOrder \<Rightarrow> MollieMetadata" where
  "partialOrder m =
     \<lparr>md_id = Some (mo_id m), md_mode = mo_mode m, md_method = mo_method m,
      md_profileId = mo_profileId m, md_amount = Some (mo_amount m),
      md_authorizedAt = mo_authorizedAt m, md_paidAt = mo_paidAt m\<rparr>"

definition paymentInput :: "int \<Rightarrow> MollieMetadata \<Rightarrow> string \<Rightarrow> PaymentState \<Rightarrow> PaymentInput" where
  "paymentInput amount mollieMetadata paymentMethodCode status =
     \<lparr>pi_method = paymentMethodCode,
      pi_metadata =
        \<lparr>pmd_amount = amount, pmd_status = status, pmd_orderId = md_id mollieMetadata,
         pmd_mode = md_mode mollieMetadata, pmd_method = md_method mollieMetadata,
         pmd_profileId = md_profileId mollieMetadata,
         pmd_settlementAmount = md_amount mollieMetadata,
         pmd_authorizedAt = md_authorizedAt mollieMetadata,
         pmd_paidAt = md_paidAt mollieMetadata\<rparr>\<rparr>"

definition needsTransition :: "Order \<Rightarrow> bool" where
  "needsTransition order =
     (order_state order \<noteq> ArrangingPayment \<and> order_state order \<noteq> ArrangingAdditionalPayment)"

text \<open>\<open>addPayment\<close>: move the order to \<open>ArrangingPayment\<close> unless it is arranging a payment
  already, then add the payment through the order service.\<close>

definition addPayment ::
  "'s services \<Rightarrow> RequestContext \<Rightarrow> Order \<Rightarrow> int \<Rightarrow> MollieMetadata \<Rightarrow> string \<Rightarrow> PaymentState
    \<Rightarrow> 's world \<Rightarrow> (error + Order) \<times> 's world" where
  "addPayment svc ctx order amount mollieMetadata paymentMethodCode status w =
     (let (failed, w1) =
        (if needsTransition order then
           (let (transitionToStateResult, s1) =
                  orderService_transitionToState svc ctx (order_id order) ArrangingPayment (store w);
                w1 = issue (TransitionToState ctx (order_id order) ArrangingPayment) (w\<lparr>store := s1\<rparr>)
            in case transitionToStateResult of
                 Inl e \<Rightarrow>
                   (Some (StateTransitionError (order_code order) (te_fromState e) (te_toState e)
                      (te_message e)), w1)
               | Inr _ \<Rightarrow> (None, w1))
         else (None, w))
      in case failed of
           Some e \<Rightarrow> (Inl e, w1)
         | None \<Rightarrow>
             (let input = paymentInput amount mollieMetadata paymentMethodCode status;
                  (addPaymentToOrderResult, s2) =
                    orderService_addPaymentToOrder svc ctx (order_id order) input (store w1);
                  w2 = issue (AddPaymentToOrder ctx (order_id order) input) (w1\<lparr>store := s2\<rparr>)
              in case addPaymentToOrderResult of
                   Inl message \<Rightarrow> (Inl (PaymentAttachError (order_code order) message), w2)
                 | Inr newOrder \<Rightarrow> (Inr newOrder, w2)))"

text \<open>\<open>settleExistingPayment\<close>: hydrate the order's payments, find the payment of the
  provider order, settle it.\<close>

definition settleExistingPayment ::
  "'s services \<Rightarrow> RequestContext \<Rightarrow> Order \<Rightarrow> string \<Rightarrow> 's world \<Rightarrow> (error + unit) \<times> 's world" where
  "settleExistingPayment svc ctx order0 mollieOrderId w =
     (let order = entityHydrator_hydrate svc ctx order0 [''payments''] (store w);
          w1 = issue (Hydrate ctx (order_id order0) [''payments'']) w
      in case find (\<lambda>p. transactionId p = mollieOrderId) (payments order) of
           None \<Rightarrow> (Inl (PaymentNotFoundError mollieOrderId (order_code order)), w1)
         | Some payment \<Rightarrow>
             (let (result, s2) = orderService_settlePayment svc ctx (payment_id payment) (store w1);
                  w2 = issue (SettlePayment ctx (payment_id payment)) (w1\<lparr>store := s2\<rparr>)
              in case result of
                   Inl e \<Rightarrow>
                     (if er_message e \<noteq> [] then
                        (Inl (SettlementError (payment_id payment) (order_code order)
                           (er_errorCode e) (er_message e)), w2)
                      else (Inr (), w2))
                 | Inr _ \<Rightarrow> (Inr (), w2)))"

definition mollieStatesThatRequireAction :: "OrderStatus list" where
  "mollieStatesThatRequireAction = [completed, authorized, paid]"

definition vendureStatesThatRequireAction :: "OrderState list" where
  "vendureStatesThatRequireAction =
     [AddingItems, ArrangingPayment, ArrangingAdditionalPayment, PaymentAuthorized, Draft]"

text \<open>The context the webhook goes on with: recreated with the language of the provider
  order's metadata when there is one.\<close>

definition webhookCtx :: "RequestContext \<Rightarrow> MollieOrder \<Rightarrow> RequestContext" where
  "webhookCtx ctx mollieOrder =
     (case truthy (mo_languageCode mollieOrder) of
        None \<Rightarrow> ctx
      | Some lang \<Rightarrow> adminCtx ctx lang)"

text \<open>The part of \<open>handleMollieStatusUpdate\<close> after the order is found: the three gates
  and the decision table.\<close>

definition reconcile ::
  "'s services \<Rightarrow> RequestContext \<Rightarrow> PaymentMethod \<Rightarrow> bool \<Rightarrow> MollieOrder \<Rightarrow> Order
    \<Rightarrow> 's world \<Rightarrow> (error + unit) \<times> 's world" where
  "reconcile svc ctx paymentMethod autoCapture mollieOrder order w =
     (if mo_status mollieOrder \<notin> set mollieStatesThatRequireAction then
        (Inr (), logger Info (IgnoringStatus (mo_status mollieOrder) (order_code order)) w)
      else if orderPlacedAt order \<noteq> None
              \<and> find (\<lambda>p. transactionId p = mo_id mollieOrder) (payments order) = None then
        (Inr (), logger Error (AlreadyPaidShouldRefund (order_code order) (mo_id mollieOrder)) w)
      else if order_state order \<notin> set vendureStatesThatRequireAction then
        (Inr (),
         logger Info
           (NoNeedForHandling (order_code order) (order_state order) (mo_status mollieOrder)) w)
      else
        (let amount = amountToCents svc (mo_amount mollieOrder) in
         if mo_status mollieOrder = paid then
           (case addPayment svc ctx order amount (partialOrder mollieOrder)
                   (pm_code paymentMethod) Settled w of
              (Inl e, w1) \<Rightarrow> (Inl e, w1)
            | (Inr _, w1) \<Rightarrow> (Inr (), w1))
         else if order_state order = AddingItems \<and> mo_status mollieOrder = authorized then
           (case addPayment svc ctx order amount (partialOrder mollieOrder)
                   (pm_code paymentMethod) Authorized w of
              (Inl e, w1) \<Rightarrow> (Inl e, w1)
            | (Inr order1, w1) \<Rightarrow>
                (if autoCapture \<and> mo_status mollieOrder = authorized then
                   settleExistingPayment svc ctx order1 (mo_id mollieOrder)
                     (logger Info (AutoCapturing (order_code order1)) w1)
                 else (Inr (), w1)))
         else if order_state order = PaymentAuthorized \<and> mo_status mollieOrder = completed then
           settleExistingPayment svc ctx order (mo_id mollieOrder) w
         else if autoCapture \<and> mo_status mollieOrder = completed then
           (Inr (), w)
         else
           (Inl (UnhandledTransitionError (mo_status mollieOrder) (order_code order)
              (order_state order)), w)))"

text \<open>\<open>handleMollieStatusUpdate\<close>: resolve the payment method and its API key, fetch the
  provider order, find the local order, then reconcile.\<close>

definition handleMollieStatusUpdate ::
  "'s services \<Rightarrow> RequestContext \<Rightarrow> OrderStatusInput \<Rightarrow> 's world \<Rightarrow> (error + unit) \<times> 's world" where
  "handleMollieStatusUpdate svc ctx input w =
     (let w1 = logger Info (ReceivedStatusUpdate (channelToken ctx) (orderId input)) w;
          w2 = issue (PaymentMethodFindOne ctx (paymentMethodId input)) w1
      in case paymentMethodService_findOne svc ctx (paymentMethodId input) (store w2) of
           None \<Rightarrow> (Inr (), logger Warn (NoPaymentMethodFound (paymentMethodId input)) w2)
         | Some paymentMethod \<Rightarrow>
             (let autoCapture = (argValue ''autoCapture'' paymentMethod = Some ''true'') in
              case truthy (argValue ''apiKey'' paymentMethod) of
                None \<Rightarrow> (Inl (NoApiKeyError (pm_id paymentMethod)), w2)
              | Some apiKey \<Rightarrow>
                  (let w3 = issue (MollieOrdersGet apiKey (orderId input)) w2 in
                   case mollie_orders_get svc apiKey (orderId input) (store w3) of
                     None \<Rightarrow> (Inl (ProviderFetchError (orderId input)), w3)
                   | Some mollieOrder \<Rightarrow>
                       (let ctx1 = webhookCtx ctx mollieOrder;
                            w4 = logger Info
                                   (ProcessingStatus (mo_status mollieOrder)
                                      (mo_orderNumber mollieOrder) (channelToken ctx1)
                                      (orderId input)) w3;
                            w5 = issue (OrderFindOneByCode ctx1 (mo_orderNumber mollieOrder)) w4
                        in case orderService_findOneByCode svc ctx1 (mo_orderNumber mollieOrder)
                                  (store w5) of
                             None \<Rightarrow>
                               (Inl (OrderNotFoundError (mo_orderNumber mollieOrder)
                                  (mo_id mollieOrder)), w5)
                           | Some order \<Rightarrow>
                               reconcile svc ctx1 paymentMethod autoCapture mollieOrder order
                                 w5))))"

text \<open>The world in which \<open>reconcile\<close> starts when the payment method, its API key, the
  provider order and the local order were all resolved.\<close>

definition resolved :: "RequestContext \<Rightarrow> OrderStatusInput \<Rightarrow> string \<Rightarrow> MollieOrder \<Rightarrow> 's world \<Rightarrow> 's world" where
  "resolved ctx input apiKey mollieOrder w =
     w\<lparr>logs := logs w @
         [(Info, ReceivedStatusUpdate (channelToken ctx) (orderId input)),
          (Info, ProcessingStatus (mo_status mollieOrder) (mo_orderNumber mollieOrder)
                   (channelToken (webhookCtx ctx mollieOrder)) (orderId input))],
       calls := calls w @
         [PaymentMethodFindOne ctx (paymentMethodId input),
          MollieOrdersGet apiKey (orderId input),
          OrderFindOneByCode (webhookCtx ctx mollieOrder) (mo_orderNumber mollieOrder)]\<rparr>"

section \<open>Creating a payment intent\<close>

text \<open>\<open>getOrder\<close>: the order with the given id (\<open>assertFound\<close> throws when there is none),
  or the active order of the session.\<close>

definition getOrder ::
  "'s services \<Rightarrow> RequestContext \<Rightarrow> ident option \<Rightarrow> 's world
    \<Rightarrow> (error + (intentMessage + Order)) \<times> 's world" where
  "getOrder svc ctx oid w =
     (case truthy oid of
        Some i \<Rightarrow>
          (case orderService_findOne svc ctx i (store w) of
             None \<Rightarrow> (Inl EntityNotFoundError, issue (OrderFindOne ctx i) w)
           | Some order \<Rightarrow> (Inr (Inr order), issue (OrderFindOne ctx i) w))
      | None \<Rightarrow>
          (case activeOrderService_getActiveOrder svc ctx (store w) of
             None \<Rightarrow> (Inr (Inl NoActiveOrderFound), issue (GetActiveOrder ctx) w)
           | Some order \<Rightarrow> (Inr (Inr order), issue (GetActiveOrder ctx) w)))"

definition getPaymentMethod ::
  "'s services \<Rightarrow> RequestContext \<Rightarrow> string option \<Rightarrow> 's world \<Rightarrow> PaymentMethod option \<times> 's world" where
  "getPaymentMethod svc ctx paymentMethodCode w =
     (case truthy paymentMethodCode of
        Some c \<Rightarrow>
          (find (\<lambda>pm. pm_code pm = c) (paymentMethodService_findAll svc ctx (Some c) (store w)),
           issue (PaymentMethodFindAll ctx (Some c)) w)
      | None \<Rightarrow>
          (find (\<lambda>pm. handler_code pm = molliePaymentHandler_code svc)
             (paymentMethodService_findAll svc ctx None (store w)),
           issue (PaymentMethodFindAll ctx None) w))"

text \<open>\<open>canTransitionTo\<close>: a dry run of the transition on a fresh copy of the order. The
  result is the message of the exception thrown, if any.\<close>

definition canTransitionTo ::
  "'s services \<Rightarrow> RequestContext \<Rightarrow> ident \<Rightarrow> OrderState \<Rightarrow> 's world \<Rightarrow> string option \<times> 's world" where
  "canTransitionTo svc ctx oid state w =
     (let w1 = issue (OrderFindOne ctx oid) w in
      case orderService_findOne svc ctx oid (store w1) of
        None \<Rightarrow> (Some ''error.entity-not-found'', w1)
      | Some orderCopy \<Rightarrow>
          (orderStateMachine_transition svc ctx orderCopy state (store w1),
           issue (StateMachineTransition ctx oid state) w1))"

definition stripSlash :: "string \<Rightarrow> string" where
  "stripSlash s = (if s \<noteq> [] \<and> last s = CHR ''/'' then butlast s else s)"

definition hydratedRelations :: "string list" where
  "hydratedRelations =
     [''customer'', ''surcharges'', ''lines.productVariant'',
      ''lines.productVariant.translations'', ''shippingLines.shippingMethod'', ''payments'']"

datatype 'a step = Throw error | Return MolliePaymentIntentResult | Continue 'a

record validated =
  v_order :: Order
  v_paymentMethod :: PaymentMethod
  v_redirectUrl :: string
  v_apiKey :: string
  v_vendureHost :: string
  v_billingAddress :: MollieAddress

text \<open>The first part of \<open>createPaymentIntent\<close>, up to the billing address: every check
  that returns a typed error result or throws. The hydrator fills the relations of the
  order object it is given, so the order read afterwards is the hydrated one.\<close>

definition validateIntent ::
  "'s services \<Rightarrow> RequestContext \<Rightarrow> MolliePaymentIntentInput \<Rightarrow> 's world
    \<Rightarrow> validated step \<times> 's world" where
  "validateIntent svc ctx input w =
     (if (case truthy (in_molliePaymentMethodCode input) of
            None \<Rightarrow> False
          | Some m \<Rightarrow> m \<notin> set (allowedMethods svc)) then
        (Return (InvalidInputError (MethodCodeNotAllowed (allowedMethods svc))), w)
      else
        (let (orderResult, w1) = getOrder svc ctx (in_orderId input) w;
             (paymentMethodResult, w2) = getPaymentMethod svc ctx (in_paymentMethodCode input) w1
         in case orderResult of
              Inl e \<Rightarrow> (Throw e, w2)
            | Inr (Inl message) \<Rightarrow> (Return (PaymentIntentError message), w2)
            | Inr (Inr order0) \<Rightarrow>
         (case paymentMethodResult of
            None \<Rightarrow>
              (Return (PaymentIntentError (NoPaymentMethodWithCode (in_paymentMethodCode input))),
               w2)
          | Some paymentMethod \<Rightarrow>
         (let eligiblePaymentMethods =
                orderService_getEligiblePaymentMethods svc ctx (order_id order0) (store w2);
              order = entityHydrator_hydrate svc ctx order0 hydratedRelations (store w2);
              w3 = issue (Hydrate ctx (order_id order0) hydratedRelations)
                     (issue (GetEligiblePaymentMethods ctx (order_id order0)) w2)
          in
          if find (\<lambda>eligibleMethod. q_id eligibleMethod = pm_id paymentMethod
                     \<and> q_isEligible eligibleMethod) eligiblePaymentMethods = None then
            (Return (InvalidInputError
               (NotEligibleForOrder (pm_code paymentMethod) (order_code order))), w3)
          else
         (let (thrown, w4) =
                (if needsTransition order
                 then canTransitionTo svc ctx (order_id order) ArrangingPayment w3
                 else (None, w3))
          in case thrown of
               Some message \<Rightarrow>
                 (if message \<noteq> [] then (Return (PaymentIntentError (ThrownMessage message)), w4)
                  else (Throw (RethrownError message), w4))
             | None \<Rightarrow>
          if (case customer order of None \<Rightarrow> True | Some c \<Rightarrow> firstName c = []) then
            (Return (PaymentIntentError NoFirstNameSet), w4)
          else if (case customer order of None \<Rightarrow> True | Some c \<Rightarrow> lastName c = []) then
            (Return (PaymentIntentError NoLastNameSet), w4)
          else
         (case (case truthy (in_redirectUrl input) of
                  Some url \<Rightarrow> Some url
                | None \<Rightarrow>
                    (case truthy (argValue ''redirectUrl'' paymentMethod) of
                       None \<Rightarrow> None
                     | Some fallbackRedirect \<Rightarrow>
                         Some (stripSlash fallbackRedirect @ ''/'' @ order_code order))) of
            None \<Rightarrow> (Return (PaymentIntentError NoRedirectUrlGiven), w4)
          | Some redirectUrl \<Rightarrow>
         (case truthy (argValue ''apiKey'' paymentMethod) of
            None \<Rightarrow>
              (Return (PaymentIntentError (NoApiKeyForMethod (pm_code paymentMethod))),
               logger Warn (NoApiKeyConfigured (pm_code paymentMethod)) w4)
          | Some apiKey \<Rightarrow>
         (case (case toMollieAddress svc (billingAddress order) (customer order) of
                  Some a \<Rightarrow> Some a
                | None \<Rightarrow> toMollieAddress svc (shippingAddress order) (customer order)) of
            None \<Rightarrow> (Return (InvalidInputError IncompleteAddress), w4)
          | Some address \<Rightarrow>
              (Continue
                 \<lparr>v_order = order, v_paymentMethod = paymentMethod,
                  v_redirectUrl = redirectUrl, v_apiKey = apiKey,
                  v_vendureHost = stripSlash (options_vendureHost svc),
                  v_billingAddress = address\<rparr>, w4)))))))))"

definition settledWithoutMollie :: MollieMetadata where
  "settledWithoutMollie =
     \<lparr>md_id = None, md_mode = None, md_method = Some ''Settled without Mollie'',
      md_profileId = None, md_amount = None, md_authorizedAt = None, md_paidAt = None\<rparr>"

definition orderInput ::
  "'s services \<Rightarrow> RequestContext \<Rightarrow> MolliePaymentIntentInput \<Rightarrow> validated \<Rightarrow> CreateParameters" where
  "orderInput svc ctx input v =
     (let order = v_order v;
          alreadyPaid = totalCoveredByPayments svc order;
          amountToPay = totalWithTax order - alreadyPaid
      in \<lparr>cp_orderNumber = order_code order,
          cp_amount = toAmount svc amountToPay (currencyCode order),
          cp_redirectUrl = v_redirectUrl v,
          cp_webhookUrl = v_vendureHost v @ ''/payments/mollie/'' @ channelToken ctx @ ''/''
                            @ pm_id (v_paymentMethod v),
          cp_billingAddress = v_billingAddress v,
          cp_locale = getLocale svc (ma_country (v_billingAddress v)) (languageCode ctx),
          cp_lines = toMollieOrderLines svc order alreadyPaid,
          cp_metadata_languageCode = languageCode ctx,
          cp_method = truthy (in_molliePaymentMethodCode input)\<rparr>)"

text \<open>The second part of \<open>createPaymentIntent\<close>: the amount left to pay, and either the
  payment of amount zero or the provider order. Saving the provider order's id on the order
  is not awaited in the source; here it runs at once, and its failure is only logged.\<close>

definition settleOrCreateOrder ::
  "'s services \<Rightarrow> RequestContext \<Rightarrow> MolliePaymentIntentInput \<Rightarrow> validated \<Rightarrow> 's world
    \<Rightarrow> (error + MolliePaymentIntentResult) \<times> 's world" where
  "settleOrCreateOrder svc ctx input v w =
     (let order = v_order v;
          paymentMethod = v_paymentMethod v;
          alreadyPaid = totalCoveredByPayments svc order;
          amountToPay = totalWithTax order - alreadyPaid
      in
      if amountToPay = 0 then
        (case addPayment svc (adminCtx ctx (languageCode ctx)) order amountToPay
                settledWithoutMollie (pm_code paymentMethod) Settled w of
           (Inl e, w1) \<Rightarrow> (Inl e, w1)
         | (Inr _, w1) \<Rightarrow> (Inr (MolliePaymentIntent (v_redirectUrl v)), w1))
      else
        (let (created, s1) =
               mollie_orders_create svc (v_apiKey v) (orderInput svc ctx input v) (store w);
             w1 = issue (MollieOrdersCreate (v_apiKey v) (orderInput svc ctx input v))
                    (w\<lparr>store := s1\<rparr>)
         in case created of
              None \<Rightarrow> (Inl (ProviderCreateError (order_code order)), w1)
            | Some mollieOrder \<Rightarrow>
                (let (saved, s2) =
                       orderService_updateCustomFields svc ctx (order_id order)
                         (mo_id mollieOrder) (store w1);
                     w2 = issue (UpdateCustomFields ctx (order_id order) (mo_id mollieOrder))
                            (w1\<lparr>store := s2\<rparr>);
                     w3 = logger Info (CreatedMollieOrder (mo_id mollieOrder) (order_code order))
                            w2;
                     w4 = (if saved then w3 else logger Error FailedToSaveMollieOrderId w3)
                 in case truthy (mo_checkoutUrl mollieOrder) of
                      None \<Rightarrow> (Inl NoCheckoutUrlError, w4)
                    | Some url \<Rightarrow> (Inr (MolliePaymentIntent url), w4))))"

definition createPaymentIntent ::
  "'s services \<Rightarrow> RequestContext \<Rightarrow> MolliePaymentIntentInput \<Rightarrow> 's world
    \<Rightarrow> (error + MolliePaymentIntentResult) \<times> 's world" where
  "createPaymentIntent svc ctx input w =
     (case validateIntent svc ctx input w of
        (Throw e, w1) \<Rightarrow> (Inl e, w1)
      | (Return r, w1) \<Rightarrow> (Inr r, w1)
      | (Continue v, w1) \<Rightarrow> settleOrCreateOrder svc ctx input v w1)"

text \<open>What a trace says was done: the payments handed to the order service, the payments
  whose settlement was requested, the provider orders created.\<close>

fun addedPayments :: "call list \<Rightarrow> PaymentInput list" where
  "addedPayments [] = []"
| "addedPayments (AddPaymentToOrder ctx oid i # cs) = i # addedPayments cs"
| "addedPayments (c # cs) = addedPayments cs"

fun settledPayments :: "call list \<Rightarrow> ident list" where
  "settledPayments [] = []"
| "settledPayments (SettlePayment ctx pid # cs) = pid # settledPayments cs"
| "settledPayments (c # cs) = settledPayments cs"

fun createdOrders :: "call list \<Rightarrow> CreateParameters list" where
  "createdOrders [] = []"
| "createdOrders (MollieOrdersCreate k params # cs) = params # createdOrders cs"
| "createdOrders (c # cs) = createdOrders cs"

section \<open>The promotion service\<close>

text \<open>
  The connection is the table of promotion entities with the next generated primary key:
  \<open>save\<close> inserts an entity without id under a fresh id and replaces the row of an
  entity with an id, \<open>findOne\<close> looks a row up by id, and the query
  \<^verbatim>\<open>find({ where: { enabled: true } })\<close> returns the enabled rows. The helpers
  \<open>assignToChannels\<close> and \<open>patchEntity\<close> are not in the source file and are parameters.
\<close>

record AdjustmentArgInput =
  ai_name :: string
  ai_value :: string

record AdjustmentOperationInput =
  aoi_code :: string
  aoi_arguments :: "AdjustmentArgInput list"

record AdjustmentArg =
  aa_name :: string
  aa_type :: "string option"
  aa_value :: string

record AdjustmentOperation =
  ao_code :: string
  ao_description :: string
  ao_args :: "AdjustmentArg list"

text \<open>A configured promotion condition or action: code, description, argument types.\<close>

record PromotionOperation =
  po_code :: string
  po_description :: string
  po_args :: "(string \<times> string) list"

record Promotion =
  promo_id :: "nat option"
  promo_name :: string
  promo_enabled :: bool
  promo_conditions :: "AdjustmentOperation list"
  promo_actions :: "AdjustmentOperation list"
  promo_channels :: "string list"

record CreatePromotionInput =
  cpi_name :: string
  cpi_enabled :: bool
  cpi_conditions :: "AdjustmentOperationInput list"
  cpi_actions :: "AdjustmentOperationInput list"

record UpdatePromotionInput =
  upi_id :: nat
  upi_name :: "string option"
  upi_enabled :: "bool option"
  upi_conditions :: "AdjustmentOperationInput list option"
  upi_actions :: "AdjustmentOperationInput list option"

record Connection =
  table :: "Promotion list"
  nextId :: nat

record PromotionService =
  connection :: Connection
  availableConditions :: "PromotionOperation list"
  availableActions :: "PromotionOperation list"
  activePromotions :: "Promotion list"

record promotionHelpers =
  assignToChannels :: "Promotion \<Rightarrow> RequestContext \<Rightarrow> Promotion"
  patchEntity :: "Promotion \<Rightarrow> UpdatePromotionInput \<Rightarrow> Promotion"

datatype promotionError =
  EntityWithIdNotFound string nat
  | AdjustmentOperationWithCodeNotFound string
  | EntityNotFound

datatype operationType = condition | action

definition connection_findOne :: "nat option \<Rightarrow> Connection \<Rightarrow> Promotion option" where
  "connection_findOne i c =
     (case i of None \<Rightarrow> None | Some k \<Rightarrow> find (\<lambda>p. promo_id p = Some k) (table c))"

definition connection_save :: "Promotion \<Rightarrow> Connection \<Rightarrow> Promotion \<times> Connection" where
  "connection_save entity c =
     (case promo_id entity of
        None \<Rightarrow>
          (let saved = entity\<lparr>promo_id := Some (nextId c)\<rparr>
           in (saved, c\<lparr>table := table c @ [saved], nextId := Suc (nextId c)\<rparr>))
      | Some k \<Rightarrow>
          (if find (\<lambda>p. promo_id p = Some k) (table c) = None then
             (entity, c\<lparr>table := table c @ [entity], nextId := max (nextId c) (Suc k)\<rparr>)
           else
             (entity,
              c\<lparr>table := map (\<lambda>p. if promo_id p = Some k then entity else p) (table c)\<rparr>)))"

definition connection_find_enabled :: "Connection \<Rightarrow> Promotion list" where
  "connection_find_enabled c = filter promo_enabled (table c)"

definition getAdjustmentOperationByCode ::
  "PromotionService \<Rightarrow> operationType \<Rightarrow> string \<Rightarrow> promotionError + PromotionOperation" where
  "getAdjustmentOperationByCode svc type code =
     (let available = (if type = condition then availableConditions svc else availableActions svc)
      in case find (\<lambda>a. po_code a = code) available of
           None \<Rightarrow> Inl (AdjustmentOperationWithCodeNotFound code)
         | Some match \<Rightarrow> Inr match)"

definition parseOperationArgs ::
  "PromotionService \<Rightarrow> operationType \<Rightarrow> AdjustmentOperationInput
    \<Rightarrow> promotionError + AdjustmentOperation" where
  "parseOperationArgs svc type input =
     (case getAdjustmentOperationByCode svc type (aoi_code input) of
        Inl e \<Rightarrow> Inl e
      | Inr match \<Rightarrow>
          Inr \<lparr>ao_code = aoi_code input, ao_description = po_description match,
               ao_args = map (\<lambda>inputArg.
                           \<lparr>aa_name = ai_name inputArg,
                            aa_type = map_of (po_args match) (ai_name inputArg),
                            aa_value = ai_value inputArg\<rparr>) (aoi_arguments input)\<rparr>)"

text \<open>\<^verbatim>\<open>inputs.map(i => this.parseOperationArgs(type, i))\<close>: the first operation whose code
  is unknown throws.\<close>

fun parseAll ::
  "PromotionService \<Rightarrow> operationType \<Rightarrow> AdjustmentOperationInput list
    \<Rightarrow> promotionError + AdjustmentOperation list" where
  "parseAll svc type [] = Inr []"
| "parseAll svc type (i # inputs) =
     (case parseOperationArgs svc type i of
        Inl e \<Rightarrow> Inl e
      | Inr operation \<Rightarrow>
          (case parseAll svc type inputs of
             Inl e \<Rightarrow> Inl e
           | Inr operations \<Rightarrow> Inr (operation # operations)))"

definition updatePromotions :: "PromotionService \<Rightarrow> PromotionService" where
  "updatePromotions svc = svc\<lparr>activePromotions := connection_find_enabled (connection svc)\<rparr>"

definition assertFound :: "Promotion option \<Rightarrow> promotionError + Promotion" where
  "assertFound v = (case v of None \<Rightarrow> Inl EntityNotFound | Some p \<Rightarrow> Inr p)"

definition createPromotion ::
  "promotionHelpers \<Rightarrow> RequestContext \<Rightarrow> CreatePromotionInput \<Rightarrow> PromotionService
    \<Rightarrow> (promotionError + Promotion) \<times> PromotionService" where
  "createPromotion h ctx input svc =
     (case parseAll svc condition (cpi_conditions input) of
        Inl e \<Rightarrow> (Inl e, svc)
      | Inr conditions \<Rightarrow>
     (case parseAll svc action (cpi_actions input) of
        Inl e \<Rightarrow> (Inl e, svc)
      | Inr actions \<Rightarrow>
          (let adjustmentSource =
                 assignToChannels h
                   \<lparr>promo_id = None, promo_name = cpi_name input,
                    promo_enabled = cpi_enabled input, promo_conditions = conditions,
                    promo_actions = actions, promo_channels = []\<rparr> ctx;
               (newAdjustmentSource, c1) = connection_save adjustmentSource (connection svc);
               svc1 = updatePromotions (svc\<lparr>connection := c1\<rparr>)
           in (assertFound (connection_findOne (promo_id newAdjustmentSource) (connection svc1)),
               svc1))))"

text \<open>\<^verbatim>\<open>omit(input, ['conditions', 'actions'])\<close>\<close>

definition omitOperations :: "UpdatePromotionInput \<Rightarrow> UpdatePromotionInput" where
  "omitOperations input = input\<lparr>upi_conditions := None, upi_actions := None\<rparr>"

definition updatePromotion ::
  "promotionHelpers \<Rightarrow> RequestContext \<Rightarrow> UpdatePromotionInput \<Rightarrow> PromotionService
    \<Rightarrow> (promotionError + Promotion) \<times> PromotionService" where
  "updatePromotion h ctx input svc =
     (case connection_findOne (Some (upi_id input)) (connection svc) of
        None \<Rightarrow> (Inl (EntityWithIdNotFound ''AdjustmentSource'' (upi_id input)), svc)
      | Some adjustmentSource \<Rightarrow>
     (let patched = patchEntity h adjustmentSource (omitOperations input) in
      case (case upi_conditions input of
              None \<Rightarrow> Inr patched
            | Some inputs \<Rightarrow>
                (case parseAll svc condition inputs of
                   Inl e \<Rightarrow> Inl e
                 | Inr conditions \<Rightarrow> Inr (patched\<lparr>promo_conditions := conditions\<rparr>))) of
        Inl e \<Rightarrow> (Inl e, svc)
      | Inr withConditions \<Rightarrow>
     (case (case upi_actions input of
              None \<Rightarrow> Inr withConditions
            | Some inputs \<Rightarrow>
                (case parseAll svc action inputs of
                   Inl e \<Rightarrow> Inl e
                 | Inr actions \<Rightarrow> Inr (withConditions\<lparr>promo_actions := actions\<rparr>))) of
        Inl e \<Rightarrow> (Inl e, svc)
      | Inr updatedAdjustmentSource \<Rightarrow>
          (let (saved, c1) = connection_save updatedAdjustmentSource (connection svc);
               svc1 = updatePromotions (svc\<lparr>connection := c1\<rparr>)
           in (assertFound (connection_findOne (promo_id updatedAdjustmentSource)
                 (connection svc1)), svc1)))))"

text \<open>The helpers as the framework has them: a new promotion is assigned to the channel of
  the request; patching copies the fields the input defines, never the id.\<close>

definition frameworkHelpers :: promotionHelpers where
  "frameworkHelpers =
     \<lparr>assignToChannels = (\<lambda>p ctx. p\<lparr>promo_channels := promo_channels p @ [channelToken ctx]\<rparr>),
      patchEntity =
        (\<lambda>p input.
           p\<lparr>promo_name := (case upi_name input of None \<Rightarrow> promo_name p | Some n \<Rightarrow> n),
             promo_enabled := (case upi_enabled input of None \<Rightarrow> promo_enabled p | Some b \<Rightarrow> b)\<rparr>)\<rparr>"

definition samplePromotions :: PromotionService where
  "samplePromotions =
     \<lparr>connection =
        \<lparr>table = [\<lparr>promo_id = Some 1, promo_name = ''Summer sale'', promo_enabled = True,
                    promo_conditions = [], promo_actions = [], promo_channels = [''default-channel'']\<rparr>,
                   \<lparr>promo_id = Some 2, promo_name = ''Old sale'', promo_enabled = False,
                    promo_conditions = [], promo_actions = [], promo_channels = [''default-channel'']\<rparr>],
         nextId = 3\<rparr>,
      availableConditions =
        [\<lparr>po_code = ''minimum_order_amount'', po_description = ''If order total is greater than amount'',
          po_args = [(''amount'', ''money'')]\<rparr>],
      availableActions =
        [\<lparr>po_code = ''order_percentage_discount'', po_description = ''Discount order by percentage'',
          po_args = [(''discount'', ''percentage'')]\<rparr>],
      activePromotions = []\<rparr>"

definition sampleCreate :: CreatePromotionInput where
  "sampleCreate =
     \<lparr>cpi_name = ''Winter sale'', cpi_enabled = True,
      cpi_conditions =
        [\<lparr>aoi_code = ''minimum_order_amount'',
          aoi_arguments = [\<lparr>ai_name = ''amount'', ai_value = ''100''\<rparr>]\<rparr>],
      cpi_actions =
        [\<lparr>aoi_code = ''order_percentage_discount'',
          aoi_arguments = [\<lparr>ai_name = ''discount'', ai_value = ''10''\<rparr>]\<rparr>]\<rparr>"

definition sampleUpdate :: "nat \<Rightarrow> UpdatePromotionInput" where
  "sampleUpdate i =
     \<lparr>upi_id = i, upi_name = None, upi_enabled = Some True, upi_conditions = None,
      upi_actions = None\<rparr>"

section \<open>A reference order store\<close>

text \<open>
  Modelled from the spec: the Order Store and the Payment Provider Client of the spec's
  section 6 (\<open>findOrderByCode\<close>, \<open>transitionState\<close>, \<open>attachPayment\<close>,
  \<open>settlePayment\<close>, \<open>fetchOrder\<close>, \<open>createOrder\<close>) are not among the source
  files. The store below is one instance of the \<open>services\<close> parameter, used to run the
  service on concrete notifications. A payment records the transaction id, the amount and the
  status of the metadata it was created from. An order whose payments cover its total is moved
  to PaymentAuthorized or PaymentSettled and gets its placement timestamp, which is what the
  source's comments at the payment of amount zero and at the auto-capture row rely on.
\<close>

record specStore =
  st_paymentMethods :: "PaymentMethod list"
  st_mollieOrders :: "MollieOrder list"
  st_orders :: "Order list"

definition coveredBy :: "PaymentState list \<Rightarrow> Order \<Rightarrow> int" where
  "coveredBy states order =
     sum_list (map payment_amount (filter (\<lambda>p. payment_state p \<in> set states) (payments order)))"

definition placeIfCovered :: "Order \<Rightarrow> Order" where
  "placeIfCovered order =
     (let placed = (case orderPlacedAt order of None \<Rightarrow> Some 1 | Some t \<Rightarrow> Some t) in
      if totalWithTax order \<le> coveredBy [Settled] order then
        order\<lparr>order_state := PaymentSettled, orderPlacedAt := placed\<rparr>
      else if totalWithTax order \<le> coveredBy [Authorized, Settled] order then
        order\<lparr>order_state := PaymentAuthorized, orderPlacedAt := placed\<rparr>
      else order)"

definition putOrder :: "Order \<Rightarrow> specStore \<Rightarrow> specStore" where
  "putOrder order s =
     s\<lparr>st_orders := map (\<lambda>x. if order_id x = order_id order then order else x) (st_orders s)\<rparr>"

definition spec_transitionToState ::
  "RequestContext \<Rightarrow> ident \<Rightarrow> OrderState \<Rightarrow> specStore \<Rightarrow> (TransitionError + Order) \<times> specStore" where
  "spec_transitionToState ctx oid target s =
     (case find (\<lambda>x. order_id x = oid) (st_orders s) of
        None \<Rightarrow>
          (Inl \<lparr>te_fromState = OtherState ''unknown'', te_toState = target,
                te_message = ''order not found''\<rparr>, s)
      | Some order \<Rightarrow>
          if order_state order = PaymentSettled then
            (Inl \<lparr>te_fromState = order_state order, te_toState = target,
                  te_message = ''order is settled''\<rparr>, s)
          else (Inr (order\<lparr>order_state := target\<rparr>), putOrder (order\<lparr>order_state := target\<rparr>) s))"

definition spec_addPaymentToOrder ::
  "RequestContext \<Rightarrow> ident \<Rightarrow> PaymentInput \<Rightarrow> specStore \<Rightarrow> (string + Order) \<times> specStore" where
  "spec_addPaymentToOrder ctx oid input s =
     (case find (\<lambda>x. order_id x = oid) (st_orders s) of
        None \<Rightarrow> (Inl ''order not found'', s)
      | Some order \<Rightarrow>
          if order_state order \<noteq> ArrangingPayment
             \<and> order_state order \<noteq> ArrangingAdditionalPayment then
            (Inl ''order is not arranging a payment'', s)
          else
            (let payment =
                   \<lparr>payment_id = oid @ ''-'' @ replicate (Suc (length (payments order))) CHR ''p'',
                    transactionId =
                      (case pmd_orderId (pi_metadata input) of None \<Rightarrow> [] | Some t \<Rightarrow> t),
                    payment_amount = pmd_amount (pi_metadata input),
                    payment_state = pmd_status (pi_metadata input)\<rparr>;
                 order1 = placeIfCovered (order\<lparr>payments := payments order @ [payment]\<rparr>)
             in (Inr order1, putOrder order1 s)))"

definition settleIn :: "ident \<Rightarrow> Order \<Rightarrow> Order" where
  "settleIn pid order =
     placeIfCovered
       (order\<lparr>payments :=
          map (\<lambda>p. if payment_id p = pid then p\<lparr>payment_state := Settled\<rparr> else p)
            (payments order)\<rparr>)"

definition spec_settlePayment ::
  "RequestContext \<Rightarrow> ident \<Rightarrow> specStore \<Rightarrow> (ErrorResult + Payment) \<times> specStore" where
  "spec_settlePayment ctx pid s =
     (case find (\<lambda>p. payment_id p = pid) (concat (map payments (st_orders s))) of
        None \<Rightarrow> (Inl \<lparr>er_errorCode = ''SETTLE_PAYMENT_ERROR'', er_message = ''payment not found''\<rparr>, s)
      | Some payment \<Rightarrow>
          (Inr (payment\<lparr>payment_state := Settled\<rparr>),
           s\<lparr>st_orders :=
               map (\<lambda>x. if pid \<in> set (map payment_id (payments x)) then settleIn pid x else x)
                 (st_orders s)\<rparr>))"

definition digitValue :: "char \<Rightarrow> int option" where
  "digitValue c = map_of (zip ''0123456789'' [0, 1, 2, 3, 4, 5, 6, 7, 8, 9]) c"

definition spec_amountToCents :: "MollieAmount \<Rightarrow> int" where
  "spec_amountToCents a =
     foldl (\<lambda>acc c. case digitValue c of None \<Rightarrow> acc | Some d \<Rightarrow> 10 * acc + d) 0 (amt_value a)"

fun showNat :: "nat \<Rightarrow> string" where
  "showNat n =
     (if n < 10 then [''0123456789'' ! n] else showNat (n div 10) @ [''0123456789'' ! (n mod 10)])"

declare showNat.simps [simp del]

definition spec_toAmount :: "int \<Rightarrow> string \<Rightarrow> MollieAmount" where
  "spec_toAmount cents currency =
     \<lparr>amt_value =
        (if cents < 0 then ''-'' else []) @ showNat (nat \<bar>cents\<bar> div 100) @ ''.''
          @ showNat (nat \<bar>cents\<bar> mod 100 div 10) @ showNat (nat \<bar>cents\<bar> mod 10),
      amt_currency = currency\<rparr>"

definition spec_toMollieAddress :: "OrderAddress \<Rightarrow> Customer option \<Rightarrow> MollieAddress option" where
  "spec_toMollieAddress address cust =
     (case (streetLine1 address, city address, postalCode address, country address) of
        (Some street, Some cty, Some code, Some ctry) \<Rightarrow>
          Some \<lparr>ma_streetAndNumber = street, ma_city = cty, ma_postalCode = code,
                ma_country = ctry,
                ma_givenName = (case cust of None \<Rightarrow> [] | Some c \<Rightarrow> firstName c),
                ma_familyName = (case cust of None \<Rightarrow> [] | Some c \<Rightarrow> lastName c)\<rparr>
      | _ \<Rightarrow> None)"

definition specServices :: "specStore services" where
  "specServices =
     \<lparr>paymentMethodService_findOne = (\<lambda>ctx i s. find (\<lambda>p. pm_id p = i) (st_paymentMethods s)),
      paymentMethodService_findAll =
        (\<lambda>ctx code s. case code of
            None \<Rightarrow> st_paymentMethods s
          | Some c \<Rightarrow> filter (\<lambda>p. pm_code p = c) (st_paymentMethods s)),
      mollie_orders_get = (\<lambda>apiKey i s. find (\<lambda>m. mo_id m = i) (st_mollieOrders s)),
      mollie_orders_create =
        (\<lambda>apiKey params s.
           let m = \<lparr>mo_id = ''ord_'' @ cp_orderNumber params, mo_status = openStatus,
                    mo_orderNumber = cp_orderNumber params, mo_amount = cp_amount params,
                    mo_languageCode = Some (cp_metadata_languageCode params),
                    mo_mode = Some ''test'', mo_method = cp_method params,
                    mo_profileId = Some ''pfl_1'', mo_authorizedAt = None, mo_paidAt = None,
                    mo_checkoutUrl = Some (''https://mollie.example/checkout/ord_''
                                             @ cp_orderNumber params)\<rparr>
           in (Some m, s\<lparr>st_mollieOrders := st_mollieOrders s @ [m]\<rparr>)),
      orderService_findOneByCode = (\<lambda>ctx c s. find (\<lambda>x. order_code x = c) (st_orders s)),
      orderService_findOne = (\<lambda>ctx i s. find (\<lambda>x. order_id x = i) (st_orders s)),
      activeOrderService_getActiveOrder =
        (\<lambda>ctx s. find (\<lambda>x. order_state x = AddingItems) (st_orders s)),
      orderService_getEligiblePaymentMethods =
        (\<lambda>ctx i s. map (\<lambda>p. \<lparr>q_id = pm_id p, q_isEligible = True\<rparr>) (st_paymentMethods s)),
      entityHydrator_hydrate =
        (\<lambda>ctx order relations s.
           case find (\<lambda>x. order_id x = order_id order) (st_orders s) of
             None \<Rightarrow> order
           | Some stored \<Rightarrow> order\<lparr>payments := payments stored\<rparr>),
      orderStateMachine_transition =
        (\<lambda>ctx order target s.
           if order_state order = PaymentSettled then Some ''order is settled'' else None),
      orderService_transitionToState = spec_transitionToState,
      orderService_addPaymentToOrder = spec_addPaymentToOrder,
      orderService_settlePayment = spec_settlePayment,
      orderService_updateCustomFields = (\<lambda>ctx i v s. (True, s)),
      allowedMethods = [''ideal'', ''creditcard'', ''klarnapaylater''],
      molliePaymentHandler_code = ''mollie-payment-handler'',
      options_vendureHost = ''https://shop.example/'',
      amountToCents = spec_amountToCents,
      toAmount = spec_toAmount,
      toMollieAddress = spec_toMollieAddress,
      getLocale = (\<lambda>ctry lang. lang @ ''_'' @ ctry),
      toMollieOrderLines =
        (\<lambda>order alreadyPaid.
           [\<lparr>ml_name = order_code order, ml_quantity = 1,
             ml_totalAmount = spec_toAmount (totalWithTax order - alreadyPaid)
                                (currencyCode order)\<rparr>]),
      totalCoveredByPayments = coveredBy [Authorized, Settled]\<rparr>"

text \<open>Sample data: a channel with three payment methods, one order and one provider order.\<close>

definition shopCtx :: RequestContext where
  "shopCtx = \<lparr>apiType = ''shop'', isAuthorized = False, authorizedAsOwnerOnly = False,
              channelToken = ''default-channel'', languageCode = ''en''\<rparr>"

definition molliePm :: PaymentMethod where
  "molliePm =
     \<lparr>pm_id = ''1'', pm_code = ''mollie'', handler_code = ''mollie-payment-handler'',
      handler_args = [\<lparr>arg_name = ''apiKey'', arg_value = ''test_key''\<rparr>,
                      \<lparr>arg_name = ''redirectUrl'', arg_value = ''https://shop.example/order/''\<rparr>]\<rparr>"

definition keylessPm :: PaymentMethod where
  "keylessPm =
     \<lparr>pm_id = ''2'', pm_code = ''mollie-keyless'', handler_code = ''mollie-payment-handler'',
      handler_args = [\<lparr>arg_name = ''redirectUrl'', arg_value = ''https://shop.example/order''\<rparr>]\<rparr>"

definition capturingPm :: PaymentMethod where
  "capturingPm =
     \<lparr>pm_id = ''3'', pm_code = ''mollie-capture'', handler_code = ''mollie-payment-handler'',
      handler_args = [\<lparr>arg_name = ''apiKey'', arg_value = ''test_key''\<rparr>,
                      \<lparr>arg_name = ''autoCapture'', arg_value = ''true''\<rparr>]\<rparr>"

definition address1 :: OrderAddress where
  "address1 = \<lparr>streetLine1 = Some ''Main Street 1'', city = Some ''Utrecht'',
               postalCode = Some ''3511'', country = Some ''NL''\<rparr>"

definition sampleOrder :: "OrderState \<Rightarrow> nat option \<Rightarrow> Payment list \<Rightarrow> Order" where
  "sampleOrder st placed ps =
     \<lparr>order_id = ''7'', order_code = ''ORDER7'', order_state = st, orderPlacedAt = placed,
      payments = ps, totalWithTax = 1000, currencyCode = ''EUR'',
      customer = Some \<lparr>firstName = ''Ada'', lastName = ''Lovelace''\<rparr>,
      billingAddress = address1, shippingAddress = address1\<rparr>"

definition sampleMollieOrder :: "OrderStatus \<Rightarrow> MollieOrder" where
  "sampleMollieOrder st =
     \<lparr>mo_id = ''ord_1'', mo_status = st, mo_orderNumber = ''ORDER7'',
      mo_amount = \<lparr>amt_value = ''10.00'', amt_currency = ''EUR''\<rparr>,
      mo_languageCode = Some ''nl'', mo_mode = Some ''test'', mo_method = Some ''ideal'',
      mo_profileId = Some ''pfl_1'', mo_authorizedAt = None, mo_paidAt = None,
      mo_checkoutUrl = None\<rparr>"

definition sampleWorld :: "OrderStatus \<Rightarrow> Order \<Rightarrow> specStore world" where
  "sampleWorld st order =
     \<lparr>store = \<lparr>st_paymentMethods = [molliePm, keylessPm, capturingPm],
                st_mollieOrders = [sampleMollieOrder st], st_orders = [order]\<rparr>,
      calls = [], logs = []\<rparr>"

definition notification :: "string \<Rightarrow> OrderStatusInput" where
  "notification pmId = \<lparr>paymentMethodId = pmId, orderId = ''ord_1''\<rparr>"

definition samplePayment :: "string \<Rightarrow> PaymentState \<Rightarrow> Payment" where
  "samplePayment tx st =
     \<lparr>payment_id = ''7-p'', transactionId = tx, payment_amount = 1000, payment_state = st\<rparr>"

definition transactionIds :: "specStore \<Rightarrow> string list list" where
  "transactionIds s = map (\<lambda>order. map transactionId (payments order)) (st_orders s)"

definition sampleIntent :: MolliePaymentIntentInput where
  "sampleIntent =
     \<lparr>in_paymentMethodCode = Some ''mollie'', in_molliePaymentMethodCode = None,
      in_orderId = Some ''7'', in_redirectUrl = None\<rparr>"

definition sampleValidated :: "Order \<Rightarrow> validated" where
  "sampleValidated order =
     \<lparr>v_order = order, v_paymentMethod = molliePm,
      v_redirectUrl = ''https://shop.example/order/ORDER7'', v_apiKey = ''test_key'',
      v_vendureHost = ''https://shop.example'',
      v_billingAddress =
        \<lparr>ma_streetAndNumber = ''Main Street 1'', ma_city = ''Utrecht'', ma_postalCode = ''3511'',
         ma_country = ''NL'', ma_givenName = ''Ada'', ma_familyName = ''Lovelace''\<rparr>\<rparr>"

definition sampleCreated :: MollieOrder where
  "sampleCreated =
     \<lparr>mo_id = ''ord_ORDER7'', mo_status = openStatus, mo_orderNumber = ''ORDER7'',
      mo_amount = \<lparr>amt_value = ''10.00'', amt_currency = ''EUR''\<rparr>,
      mo_languageCode = Some ''en'', mo_mode = Some ''test'', mo_method = None,
      mo_profileId = Some ''pfl_1'', mo_authorizedAt = None, mo_paidAt = None,
      mo_checkoutUrl = Some ''https://mollie.example/checkout/ord_ORDER7''\<rparr>"

text \<open>The sample order in the situations the notifications meet it in: not yet paid;
  moved to ArrangingPayment; paid or authorized through the provider order \<open>ord_1\<close> of
  the samples, or through another provider order \<open>ord_0\<close>; placed; with a total of
  zero or a total grown beyond the provider order's amount; back in AddingItems after a
  payment.\<close>

definition freshOrder :: Order where
  "freshOrder = sampleOrder AddingItems None []"

definition arrangingOrder :: Order where
  "arrangingOrder = sampleOrder ArrangingPayment None []"

definition settledOrder :: Order where
  "settledOrder = sampleOrder PaymentSettled (Some 1) [samplePayment ''ord_1'' Settled]"

definition settledElsewhere :: Order where
  "settledElsewhere = sampleOrder PaymentSettled (Some 1) [samplePayment ''ord_0'' Settled]"

definition authorizedOrder :: Order where
  "authorizedOrder = sampleOrder PaymentAuthorized (Some 1) [samplePayment ''ord_1'' Authorized]"

definition authorizedElsewhere :: Order where
  "authorizedElsewhere =
     sampleOrder PaymentAuthorized (Some 1) [samplePayment ''ord_0'' Authorized]"

definition additionalOrder :: Order where
  "additionalOrder =
     sampleOrder ArrangingAdditionalPayment (Some 1) [samplePayment ''ord_0'' Settled]"

definition unplacedAuthorized :: Order where
  "unplacedAuthorized = sampleOrder PaymentAuthorized None []"

definition placedAdding :: Order where
  "placedAdding = sampleOrder AddingItems (Some 1) []"

definition grownOrder :: Order where
  "grownOrder = (sampleOrder AddingItems None [])\<lparr>totalWithTax := 1500\<rparr>"

definition backToAdding :: Order where
  "backToAdding =
     (sampleOrder AddingItems None [samplePayment ''ord_1'' Authorized])\<lparr>totalWithTax := 1500\<rparr>"

definition freeOrder :: Order where
  "freeOrder = (sampleOrder AddingItems None [])\<lparr>totalWithTax := 0\<rparr>"

section \<open>Properties of the webhook handler\<close>

lemma handle_resolved:
  assumes "paymentMethodService_findOne svc ctx (paymentMethodId input) (store w) = Some pm"
    and "truthy (argValue ''apiKey'' pm) = Some apiKey"
    and "mollie_orders_get svc apiKey (orderId input) (store w) = Some mo"
    and "orderService_findOneByCode svc (webhookCtx ctx mo) (mo_orderNumber mo) (store w)
          = Some order"
  shows "handleMollieStatusUpdate svc ctx input w =
           reconcile svc (webhookCtx ctx mo) pm (argValue ''autoCapture'' pm = Some ''true'')
             mo order (resolved ctx input apiKey mo w)"
  using assms
  by (simp add: handleMollieStatusUpdate_def resolved_def logger_def issue_def Let_def)


lemma find_none_iff: "(find P xs = None) = (\<forall>x \<in> set xs. \<not> P x)"
  by (induction xs) auto

text \<open>
  Claim C9. When the payment method of the notification exists but its handler arguments
  give no API key (no \<open>apiKey\<close> argument, or an empty value), the handler throws; the
  only outbound call it has made is the payment-method lookup, so neither the provider
  fetch nor the order lookup has happened, and the store is untouched.
\<close>

theorem handleMollieStatusUpdate_no_apiKey:
  assumes "paymentMethodService_findOne svc ctx (paymentMethodId input) (store w) = Some pm"
    and "argValue ''apiKey'' pm = None \<or> argValue ''apiKey'' pm = Some []"
  shows "fst (handleMollieStatusUpdate svc ctx input w) = Inl (NoApiKeyError (pm_id pm))
       \<and> calls (snd (handleMollieStatusUpdate svc ctx input w))
           = calls w @ [PaymentMethodFindOne ctx (paymentMethodId input)]
       \<and> store (snd (handleMollieStatusUpdate svc ctx input w)) = store w"
proof -
  from assms(2) have "truthy (argValue ''apiKey'' pm) = None"
    by (auto simp: truthy_def)
  with assms(1) show ?thesis
    by (simp add: handleMollieStatusUpdate_def logger_def issue_def Let_def)
qed

text \<open>
  Claim C1. Once the provider order and the local order are resolved: if the provider status
  is not authorized, paid or completed, or the local order's state is not one of AddingItems,
  ArrangingPayment, ArrangingAdditionalPayment, PaymentAuthorized, Draft, the handler returns
  normally after writing its log line (the third of the run); the only calls it has issued
  are the three lookups (no state transition, no payment added, no settlement) and the store
  is unchanged.
\<close>

theorem handleMollieStatusUpdate_gates_no_op:
  assumes "paymentMethodService_findOne svc ctx (paymentMethodId input) (store w) = Some pm"
    and "truthy (argValue ''apiKey'' pm) = Some apiKey"
    and "mollie_orders_get svc apiKey (orderId input) (store w) = Some mo"
    and "orderService_findOneByCode svc (webhookCtx ctx mo) (mo_orderNumber mo) (store w)
          = Some order"
    and "mo_status mo \<notin> {authorized, paid, completed}
         \<or> order_state order \<notin> {AddingItems, ArrangingPayment, ArrangingAdditionalPayment,
                                   PaymentAuthorized, Draft}"
  shows "fst (handleMollieStatusUpdate svc ctx input w) = Inr ()
       \<and> store (snd (handleMollieStatusUpdate svc ctx input w)) = store w
       \<and> calls (snd (handleMollieStatusUpdate svc ctx input w))
           = calls w @ [PaymentMethodFindOne ctx (paymentMethodId input),
                        MollieOrdersGet apiKey (orderId input),
                        OrderFindOneByCode (webhookCtx ctx mo) (mo_orderNumber mo)]
       \<and> length (logs (snd (handleMollieStatusUpdate svc ctx input w))) = length (logs w) + 3"
proof -
  have "\<exists>level msg. reconcile svc (webhookCtx ctx mo) pm
            (argValue ''autoCapture'' pm = Some ''true'') mo order (resolved ctx input apiKey mo w)
          = (Inr (), logger level msg (resolved ctx input apiKey mo w))"
    using assms(5)
    by (auto simp: reconcile_def mollieStatesThatRequireAction_def
        vendureStatesThatRequireAction_def)
  then obtain level msg where
    "handleMollieStatusUpdate svc ctx input w
       = (Inr (), logger level msg (resolved ctx input apiKey mo w))"
    using handle_resolved [OF assms(1-4)] by auto
  then show ?thesis
    by (simp add: logger_def resolved_def)
qed

text \<open>
  Claim C2. With an actionable provider status, when the local order carries a placement
  timestamp and none of its payments has the provider order's id as transaction id, the
  handler writes an error-level log line and returns normally; it has issued the three
  lookups and nothing else (no transition, no payment, no settlement, no refund request)
  and the store is unchanged.
\<close>

theorem handleMollieStatusUpdate_duplicate_payment:
  assumes "paymentMethodService_findOne svc ctx (paymentMethodId input) (store w) = Some pm"
    and "truthy (argValue ''apiKey'' pm) = Some apiKey"
    and "mollie_orders_get svc apiKey (orderId input) (store w) = Some mo"
    and "orderService_findOneByCode svc (webhookCtx ctx mo) (mo_orderNumber mo) (store w)
          = Some order"
    and "mo_status mo \<in> {authorized, paid, completed}"
    and "orderPlacedAt order \<noteq> None"
    and "\<forall>p \<in> set (payments order). transactionId p \<noteq> mo_id mo"
  shows "handleMollieStatusUpdate svc ctx input w
           = (Inr (), logger Error (AlreadyPaidShouldRefund (order_code order) (mo_id mo))
                        (resolved ctx input apiKey mo w))
       \<and> store (snd (handleMollieStatusUpdate svc ctx input w)) = store w
       \<and> calls (snd (handleMollieStatusUpdate svc ctx input w))
           = calls w @ [PaymentMethodFindOne ctx (paymentMethodId input),
                        MollieOrdersGet apiKey (orderId input),
                        OrderFindOneByCode (webhookCtx ctx mo) (mo_orderNumber mo)]"
proof -
  from assms(7) have "find (\<lambda>p. transactionId p = mo_id mo) (payments order) = None"
    by (simp add: find_none_iff)
  with assms(5,6) have "reconcile svc (webhookCtx ctx mo) pm
        (argValue ''autoCapture'' pm = Some ''true'') mo order (resolved ctx input apiKey mo w)
      = (Inr (), logger Error (AlreadyPaidShouldRefund (order_code order) (mo_id mo))
                   (resolved ctx input apiKey mo w))"
    by (auto simp: reconcile_def mollieStatesThatRequireAction_def)
  then show ?thesis
    using handle_resolved [OF assms(1-4)] by (simp add: logger_def resolved_def)
qed

text \<open>
  Claim C7. A notification that passes the three gates (actionable status; no placement
  timestamp or a payment with the provider order's id; eligible state) and matches none of
  the rows paid, authorized with AddingItems, completed with PaymentAuthorized, makes the
  handler throw the unhandled-combination error, except that with auto-capture configured
  and status completed it returns normally; in both cases nothing but the lookups was issued.
\<close>

theorem handleMollieStatusUpdate_unhandled:
  assumes "paymentMethodService_findOne svc ctx (paymentMethodId input) (store w) = Some pm"
    and "truthy (argValue ''apiKey'' pm) = Some apiKey"
    and "mollie_orders_get svc apiKey (orderId input) (store w) = Some mo"
    and "orderService_findOneByCode svc (webhookCtx ctx mo) (mo_orderNumber mo) (store w)
          = Some order"
    and "mo_status mo \<in> {authorized, paid, completed}"
    and "orderPlacedAt order = None \<or> (\<exists>p \<in> set (payments order). transactionId p = mo_id mo)"
    and "order_state order \<in> {AddingItems, ArrangingPayment, ArrangingAdditionalPayment,
                               PaymentAuthorized, Draft}"
    and "mo_status mo \<noteq> paid"
    and "\<not> (order_state order = AddingItems \<and> mo_status mo = authorized)"
    and "\<not> (order_state order = PaymentAuthorized \<and> mo_status mo = completed)"
  shows "handleMollieStatusUpdate svc ctx input w
           = (if argValue ''autoCapture'' pm = Some ''true'' \<and> mo_status mo = completed
              then Inr ()
              else Inl (UnhandledTransitionError (mo_status mo) (order_code order)
                          (order_state order)),
              resolved ctx input apiKey mo w)"
proof -
  from assms(6) have gate:
    "\<not> (orderPlacedAt order \<noteq> None
        \<and> find (\<lambda>p. transactionId p = mo_id mo) (payments order) = None)"
    by (auto simp: find_none_iff)
  have "reconcile svc (webhookCtx ctx mo) pm
        (argValue ''autoCapture'' pm = Some ''true'') mo order (resolved ctx input apiKey mo w)
      = (if argValue ''autoCapture'' pm = Some ''true'' \<and> mo_status mo = completed
         then Inr ()
         else Inl (UnhandledTransitionError (mo_status mo) (order_code order)
                     (order_state order)),
         resolved ctx input apiKey mo w)"
    unfolding reconcile_def
    using gate assms(5,7-10)
    by (auto simp: mollieStatesThatRequireAction_def vendureStatesThatRequireAction_def)
  then show ?thesis
    using handle_resolved [OF assms(1-4)] by simp
qed
subsection \<open>What the two payment operations issue\<close>

lemma addedPayments_append: "addedPayments (xs @ ys) = addedPayments xs @ addedPayments ys"
  by (induction xs rule: addedPayments.induct) simp_all

lemma settledPayments_append: "settledPayments (xs @ ys) = settledPayments xs @ settledPayments ys"
  by (induction xs rule: settledPayments.induct) simp_all

lemma createdOrders_append: "createdOrders (xs @ ys) = createdOrders xs @ createdOrders ys"
  by (induction xs rule: createdOrders.induct) simp_all

lemma addPayment_accepted:
  assumes "needsTransition order \<longrightarrow>
             orderService_transitionToState svc ctx (order_id order) ArrangingPayment (store w)
               = (Inr moved, sa)"
    and "orderService_addPaymentToOrder svc ctx (order_id order)
           (paymentInput amount md code status) (if needsTransition order then sa else store w)
           = (Inr order1, sb)"
  shows "addPayment svc ctx order amount md code status w =
           (Inr order1,
            w\<lparr>store := sb,
              calls := calls w
                @ (if needsTransition order
                   then [TransitionToState ctx (order_id order) ArrangingPayment] else [])
                @ [AddPaymentToOrder ctx (order_id order) (paymentInput amount md code status)]\<rparr>)"
  using assms by (cases "needsTransition order") (simp_all add: addPayment_def issue_def Let_def)

lemma settleExistingPayment_result:
  "fst (settleExistingPayment svc ctx order tx w) =
     (case find (\<lambda>p. transactionId p = tx)
             (payments (entityHydrator_hydrate svc ctx order [''payments''] (store w))) of
        None \<Rightarrow>
          Inl (PaymentNotFoundError tx
                 (order_code (entityHydrator_hydrate svc ctx order [''payments''] (store w))))
      | Some payment \<Rightarrow>
          (case fst (orderService_settlePayment svc ctx (payment_id payment) (store w)) of
             Inl e \<Rightarrow>
               if er_message e \<noteq> [] then
                 Inl (SettlementError (payment_id payment)
                        (order_code (entityHydrator_hydrate svc ctx order [''payments''] (store w)))
                        (er_errorCode e) (er_message e))
               else Inr ()
           | Inr settled \<Rightarrow> Inr ()))"
  by (simp add: settleExistingPayment_def issue_def Let_def
      split: option.splits prod.splits sum.splits)

lemma settleExistingPayment_calls:
  "calls (snd (settleExistingPayment svc ctx order tx w)) =
     calls w @ Hydrate ctx (order_id order) [''payments'']
       # (case find (\<lambda>p. transactionId p = tx)
                 (payments (entityHydrator_hydrate svc ctx order [''payments''] (store w))) of
            None \<Rightarrow> []
          | Some payment \<Rightarrow> [SettlePayment ctx (payment_id payment)])"
  by (simp add: settleExistingPayment_def issue_def Let_def
      split: option.splits prod.splits sum.splits)

lemma settleExistingPayment_not_found_store:
  "find (\<lambda>p. transactionId p = tx)
       (payments (entityHydrator_hydrate svc ctx order [''payments''] (store w))) = None
   \<Longrightarrow> store (snd (settleExistingPayment svc ctx order tx w)) = store w"
  by (simp add: settleExistingPayment_def issue_def Let_def)

lemma addPayment_addedPayments:
  "length (addedPayments (calls (snd (addPayment svc ctx order amount md code status w))))
     \<le> Suc (length (addedPayments (calls w)))"
  by (simp add: addPayment_def issue_def Let_def addedPayments_append
      split: option.splits prod.splits sum.splits)

lemma gate_passed:
  "orderPlacedAt order = None \<or> (\<exists>p \<in> set (payments order). transactionId p = tx)
   \<Longrightarrow> \<not> (orderPlacedAt order \<noteq> None
           \<and> find (\<lambda>p. transactionId p = tx) (payments order) = None)"
  by (auto simp: find_none_iff)

subsection \<open>The rows of the decision table\<close>

text \<open>
  Claim C4, as amended. A notification with provider status paid for an order in an eligible
  state attaches a payment only when the duplicate-payment gate lets it through, that is
  when the order has no placement timestamp or already has a payment with the provider
  order's id. Then, if the order service accepts the transition to ArrangingPayment (asked
  for when the order is not arranging a payment already) and the payment, the handler hands
  exactly one payment to the order service, with status Settled, the provider order's amount
  and the provider order's id, requests no settlement, and returns normally.
\<close>

theorem handleMollieStatusUpdate_paid:
  assumes "paymentMethodService_findOne svc ctx (paymentMethodId input) (store w) = Some pm"
    and "truthy (argValue ''apiKey'' pm) = Some apiKey"
    and "mollie_orders_get svc apiKey (orderId input) (store w) = Some mo"
    and "orderService_findOneByCode svc (webhookCtx ctx mo) (mo_orderNumber mo) (store w)
          = Some order"
    and "mo_status mo = paid"
    and "order_state order \<in> {AddingItems, ArrangingPayment, ArrangingAdditionalPayment,
                               PaymentAuthorized, Draft}"
    and "orderPlacedAt order = None \<or> (\<exists>p \<in> set (payments order). transactionId p = mo_id mo)"
    and "needsTransition order \<longrightarrow>
           orderService_transitionToState svc (webhookCtx ctx mo) (order_id order)
             ArrangingPayment (store w) = (Inr moved, s1)"
    and "orderService_addPaymentToOrder svc (webhookCtx ctx mo) (order_id order)
           (paymentInput (amountToCents svc (mo_amount mo)) (partialOrder mo) (pm_code pm) Settled)
           (if needsTransition order then s1 else store w) = (Inr order1, s2)"
  shows "fst (handleMollieStatusUpdate svc ctx input w) = Inr ()
       \<and> addedPayments (calls (snd (handleMollieStatusUpdate svc ctx input w)))
           = addedPayments (calls w)
             @ [paymentInput (amountToCents svc (mo_amount mo)) (partialOrder mo) (pm_code pm)
                  Settled]
       \<and> pmd_status (pi_metadata (paymentInput (amountToCents svc (mo_amount mo))
             (partialOrder mo) (pm_code pm) Settled)) = Settled
       \<and> pmd_amount (pi_metadata (paymentInput (amountToCents svc (mo_amount mo))
             (partialOrder mo) (pm_code pm) Settled)) = amountToCents svc (mo_amount mo)
       \<and> pmd_orderId (pi_metadata (paymentInput (amountToCents svc (mo_amount mo))
             (partialOrder mo) (pm_code pm) Settled)) = Some (mo_id mo)
       \<and> settledPayments (calls (snd (handleMollieStatusUpdate svc ctx input w)))
           = settledPayments (calls w)
       \<and> store (snd (handleMollieStatusUpdate svc ctx input w)) = s2"
proof -
  let ?w = "resolved ctx input apiKey mo w"
  have st: "store ?w = store w"
    by (simp add: resolved_def)
  have add: "addPayment svc (webhookCtx ctx mo) order (amountToCents svc (mo_amount mo))
               (partialOrder mo) (pm_code pm) Settled ?w
        = (Inr order1,
           ?w\<lparr>store := s2,
               calls := calls ?w
                 @ (if needsTransition order
                    then [TransitionToState (webhookCtx ctx mo) (order_id order) ArrangingPayment]
                    else [])
                 @ [AddPaymentToOrder (webhookCtx ctx mo) (order_id order)
                      (paymentInput (amountToCents svc (mo_amount mo)) (partialOrder mo)
                         (pm_code pm) Settled)]\<rparr>)"
    using assms(8,9)
    by (intro addPayment_accepted [where moved = moved and sa = s1])
      (auto simp: st split: if_splits)
  have "reconcile svc (webhookCtx ctx mo) pm (argValue ''autoCapture'' pm = Some ''true'')
          mo order ?w
        = (Inr (),
           ?w\<lparr>store := s2,
               calls := calls ?w
                 @ (if needsTransition order
                    then [TransitionToState (webhookCtx ctx mo) (order_id order) ArrangingPayment]
                    else [])
                 @ [AddPaymentToOrder (webhookCtx ctx mo) (order_id order)
                      (paymentInput (amountToCents svc (mo_amount mo)) (partialOrder mo)
                         (pm_code pm) Settled)]\<rparr>)"
    unfolding reconcile_def
    using gate_passed [OF assms(7)] assms(5,6)
    by (auto simp: add mollieStatesThatRequireAction_def vendureStatesThatRequireAction_def)
  then show ?thesis
    using handle_resolved [OF assms(1-4)]
    by (simp add: resolved_def addedPayments_append settledPayments_append paymentInput_def
        partialOrder_def)
qed

text \<open>
  Claim C5, as amended. A notification with provider status authorized for an order in
  AddingItems attaches a payment only when the duplicate-payment gate lets it through. Then,
  if the order service accepts the transition to ArrangingPayment and the payment, exactly
  one payment is handed to the order service, with status Authorized. Without auto-capture
  nothing else is issued and the handler returns normally. With auto-capture the handler
  goes on at once to hydrate the returned order and to request the settlement of the payment
  found there under the provider order's id, and returns or throws as that settlement does.
\<close>

theorem handleMollieStatusUpdate_authorized:
  assumes "paymentMethodService_findOne svc ctx (paymentMethodId input) (store w) = Some pm"
    and "truthy (argValue ''apiKey'' pm) = Some apiKey"
    and "mollie_orders_get svc apiKey (orderId input) (store w) = Some mo"
    and "orderService_findOneByCode svc (webhookCtx ctx mo) (mo_orderNumber mo) (store w)
          = Some order"
    and "mo_status mo = authorized"
    and "order_state order = AddingItems"
    and "orderPlacedAt order = None \<or> (\<exists>p \<in> set (payments order). transactionId p = mo_id mo)"
    and "orderService_transitionToState svc (webhookCtx ctx mo) (order_id order)
           ArrangingPayment (store w) = (Inr moved, s1)"
    and "orderService_addPaymentToOrder svc (webhookCtx ctx mo) (order_id order)
           (paymentInput (amountToCents svc (mo_amount mo)) (partialOrder mo) (pm_code pm)
              Authorized) s1 = (Inr order1, s2)"
    and "argValue ''autoCapture'' pm = Some ''true'' \<longrightarrow>
           find (\<lambda>p. transactionId p = mo_id mo)
             (payments (entityHydrator_hydrate svc (webhookCtx ctx mo) order1 [''payments''] s2))
             = Some payment"
  shows "addedPayments (calls (snd (handleMollieStatusUpdate svc ctx input w)))
           = addedPayments (calls w)
             @ [paymentInput (amountToCents svc (mo_amount mo)) (partialOrder mo) (pm_code pm)
                  Authorized]
       \<and> pmd_status (pi_metadata (paymentInput (amountToCents svc (mo_amount mo))
             (partialOrder mo) (pm_code pm) Authorized)) = Authorized
       \<and> settledPayments (calls (snd (handleMollieStatusUpdate svc ctx input w)))
           = settledPayments (calls w)
             @ (if argValue ''autoCapture'' pm = Some ''true'' then [payment_id payment] else [])
       \<and> calls (snd (handleMollieStatusUpdate svc ctx input w))
           = calls (resolved ctx input apiKey mo w)
             @ [TransitionToState (webhookCtx ctx mo) (order_id order) ArrangingPayment,
                AddPaymentToOrder (webhookCtx ctx mo) (order_id order)
                  (paymentInput (amountToCents svc (mo_amount mo)) (partialOrder mo)
                     (pm_code pm) Authorized)]
             @ (if argValue ''autoCapture'' pm = Some ''true''
                then [Hydrate (webhookCtx ctx mo) (order_id order1) [''payments''],
                      SettlePayment (webhookCtx ctx mo) (payment_id payment)]
                else [])
       \<and> fst (handleMollieStatusUpdate svc ctx input w)
           = (if argValue ''autoCapture'' pm = Some ''true'' then
                (case fst (orderService_settlePayment svc (webhookCtx ctx mo)
                             (payment_id payment) s2) of
                   Inl e \<Rightarrow>
                     if er_message e \<noteq> [] then
                       Inl (SettlementError (payment_id payment)
                              (order_code (entityHydrator_hydrate svc (webhookCtx ctx mo) order1
                                 [''payments''] s2))
                              (er_errorCode e) (er_message e))
                     else Inr ()
                 | Inr settled \<Rightarrow> Inr ())
              else Inr ())"
proof -
  let ?w = "resolved ctx input apiKey mo w"
  let ?ctx = "webhookCtx ctx mo"
  let ?input = "paymentInput (amountToCents svc (mo_amount mo)) (partialOrder mo) (pm_code pm)
                  Authorized"
  let ?w1 = "?w\<lparr>store := s2,
                calls := calls ?w
                  @ (if needsTransition order
                     then [TransitionToState ?ctx (order_id order) ArrangingPayment] else [])
                  @ [AddPaymentToOrder ?ctx (order_id order) ?input]\<rparr>"
  have st: "store ?w = store w"
    by (simp add: resolved_def)
  have nt: "needsTransition order"
    using assms(6) by (simp add: needsTransition_def)
  have add: "addPayment svc ?ctx order (amountToCents svc (mo_amount mo)) (partialOrder mo)
               (pm_code pm) Authorized ?w = (Inr order1, ?w1)"
    using assms(8,9) nt
    by (intro addPayment_accepted [where moved = moved and sa = s1]) (auto simp: st)
  have rec: "reconcile svc ?ctx pm (argValue ''autoCapture'' pm = Some ''true'') mo order ?w
        = (if argValue ''autoCapture'' pm = Some ''true''
           then settleExistingPayment svc ?ctx order1 (mo_id mo)
                  (logger Info (AutoCapturing (order_code order1)) ?w1)
           else (Inr (), ?w1))"
    unfolding reconcile_def
    using gate_passed [OF assms(7)] assms(5,6)
    by (auto simp: add mollieStatesThatRequireAction_def vendureStatesThatRequireAction_def)
  show ?thesis
  proof (cases "argValue ''autoCapture'' pm = Some ''true''")
    case False
    with rec handle_resolved [OF assms(1-4)] nt show ?thesis
      by (simp add: resolved_def addedPayments_append settledPayments_append paymentInput_def)
  next
    case True
    let ?w2 = "logger Info (AutoCapturing (order_code order1)) ?w1"
    have w2: "store ?w2 = s2"
      "calls ?w2 = calls ?w @ [TransitionToState ?ctx (order_id order) ArrangingPayment,
                               AddPaymentToOrder ?ctx (order_id order) ?input]"
      using nt by (simp_all add: logger_def)
    from True assms(10) have found:
      "find (\<lambda>p. transactionId p = mo_id mo)
         (payments (entityHydrator_hydrate svc ?ctx order1 [''payments''] s2)) = Some payment"
      by simp
    have h: "handleMollieStatusUpdate svc ctx input w
               = settleExistingPayment svc ?ctx order1 (mo_id mo) ?w2"
      using rec True handle_resolved [OF assms(1-4)] by simp
    have c: "calls (snd (handleMollieStatusUpdate svc ctx input w))
               = calls ?w @ [TransitionToState ?ctx (order_id order) ArrangingPayment,
                             AddPaymentToOrder ?ctx (order_id order) ?input,
                             Hydrate ?ctx (order_id order1) [''payments''],
                             SettlePayment ?ctx (payment_id payment)]"
      unfolding h settleExistingPayment_calls w2 using found by simp
    have r: "fst (handleMollieStatusUpdate svc ctx input w)
               = (case fst (orderService_settlePayment svc ?ctx (payment_id payment) s2) of
                    Inl e \<Rightarrow>
                      if er_message e \<noteq> [] then
                        Inl (SettlementError (payment_id payment)
                               (order_code (entityHydrator_hydrate svc ?ctx order1
                                  [''payments''] s2))
                               (er_errorCode e) (er_message e))
                      else Inr ()
                  | Inr settled \<Rightarrow> Inr ())"
      unfolding h settleExistingPayment_result w2 using found by simp
    show ?thesis
      using True r
      by (simp add: c resolved_def addedPayments_append settledPayments_append paymentInput_def)
  qed
qed

text \<open>
  Claim C6, as amended. A notification with provider status completed for an order in
  PaymentAuthorized reaches \<open>settleExistingPayment\<close> only when the duplicate-payment gate
  lets it through. Then the handler does what \<open>settleExistingPayment\<close> does on the order
  and the provider order's id: the order's payments are hydrated; when none of them has the
  provider order's id as transaction id it throws the payment-not-found error and issues
  nothing more; otherwise it requests the settlement of the first such payment, and throws
  the settlement error when the result carries a message.
\<close>

theorem handleMollieStatusUpdate_completed:
  assumes "paymentMethodService_findOne svc ctx (paymentMethodId input) (store w) = Some pm"
    and "truthy (argValue ''apiKey'' pm) = Some apiKey"
    and "mollie_orders_get svc apiKey (orderId input) (store w) = Some mo"
    and "orderService_findOneByCode svc (webhookCtx ctx mo) (mo_orderNumber mo) (store w)
          = Some order"
    and "mo_status mo = completed"
    and "order_state order = PaymentAuthorized"
    and "orderPlacedAt order = None \<or> (\<exists>p \<in> set (payments order). transactionId p = mo_id mo)"
  shows "handleMollieStatusUpdate svc ctx input w
           = settleExistingPayment svc (webhookCtx ctx mo) order (mo_id mo)
               (resolved ctx input apiKey mo w)
       \<and> calls (snd (handleMollieStatusUpdate svc ctx input w))
           = calls (resolved ctx input apiKey mo w)
             @ Hydrate (webhookCtx ctx mo) (order_id order) [''payments'']
               # (case find (\<lambda>p. transactionId p = mo_id mo)
                         (payments (entityHydrator_hydrate svc (webhookCtx ctx mo) order
                            [''payments''] (store w))) of
                    None \<Rightarrow> []
                  | Some payment \<Rightarrow> [SettlePayment (webhookCtx ctx mo) (payment_id payment)])
       \<and> fst (handleMollieStatusUpdate svc ctx input w)
           = (case find (\<lambda>p. transactionId p = mo_id mo)
                     (payments (entityHydrator_hydrate svc (webhookCtx ctx mo) order
                        [''payments''] (store w))) of
                None \<Rightarrow>
                  Inl (PaymentNotFoundError (mo_id mo)
                         (order_code (entityHydrator_hydrate svc (webhookCtx ctx mo) order
                            [''payments''] (store w))))
              | Some payment \<Rightarrow>
                  (case fst (orderService_settlePayment svc (webhookCtx ctx mo)
                               (payment_id payment) (store w)) of
                     Inl e \<Rightarrow>
                       if er_message e \<noteq> [] then
                         Inl (SettlementError (payment_id payment)
                                (order_code (entityHydrator_hydrate svc (webhookCtx ctx mo) order
                                   [''payments''] (store w)))
                                (er_errorCode e) (er_message e))
                       else Inr ()
                   | Inr settled \<Rightarrow> Inr ()))"
proof -
  let ?w = "resolved ctx input apiKey mo w"
  have st: "store ?w = store w"
    by (simp add: resolved_def)
  have "reconcile svc (webhookCtx ctx mo) pm (argValue ''autoCapture'' pm = Some ''true'')
          mo order ?w
        = settleExistingPayment svc (webhookCtx ctx mo) order (mo_id mo) ?w"
    unfolding reconcile_def
    using gate_passed [OF assms(7)] assms(5,6)
    by (auto simp: mollieStatesThatRequireAction_def vendureStatesThatRequireAction_def)
  then have h: "handleMollieStatusUpdate svc ctx input w
                  = settleExistingPayment svc (webhookCtx ctx mo) order (mo_id mo) ?w"
    using handle_resolved [OF assms(1-4)] by simp
  show ?thesis
    unfolding h settleExistingPayment_calls settleExistingPayment_result st by simp
qed

text \<open>
  Claim C3, as amended. When the local order already has a payment with the provider
  order's id, processing the notification hands no further payment to the order service,
  unless the order is still in an eligible state and the status is paid, or the order is in
  AddingItems and the status is authorized.
\<close>

theorem handleMollieStatusUpdate_no_second_payment:
  assumes "paymentMethodService_findOne svc ctx (paymentMethodId input) (store w) = Some pm"
    and "truthy (argValue ''apiKey'' pm) = Some apiKey"
    and "mollie_orders_get svc apiKey (orderId input) (store w) = Some mo"
    and "orderService_findOneByCode svc (webhookCtx ctx mo) (mo_orderNumber mo) (store w)
          = Some order"
    and "\<exists>p \<in> set (payments order). transactionId p = mo_id mo"
    and "\<not> (order_state order \<in> {AddingItems, ArrangingPayment, ArrangingAdditionalPayment,
                                   PaymentAuthorized, Draft}
            \<and> mo_status mo = paid)"
    and "\<not> (order_state order = AddingItems \<and> mo_status mo = authorized)"
  shows "addedPayments (calls (snd (handleMollieStatusUpdate svc ctx input w)))
           = addedPayments (calls w)"
proof -
  let ?w = "resolved ctx input apiKey mo w"
  have base: "addedPayments (calls ?w) = addedPayments (calls w)"
    by (simp add: resolved_def addedPayments_append)
  have settle: "addedPayments (calls (snd (settleExistingPayment svc c order tx ?w)))
                  = addedPayments (calls w)" for c tx
    unfolding settleExistingPayment_calls
    by (simp add: addedPayments_append base split: option.splits)
  have "addedPayments (calls (snd (reconcile svc (webhookCtx ctx mo) pm
          (argValue ''autoCapture'' pm = Some ''true'') mo order ?w))) = addedPayments (calls w)"
    unfolding reconcile_def
    using assms(6,7)
    by (auto simp: settle base logger_def vendureStatesThatRequireAction_def)
  then show ?thesis
    using handle_resolved [OF assms(1-4)] by simp
qed

section \<open>Properties of the payment intent\<close>

lemma getOrder_frame:
  "store (snd (getOrder svc ctx oid w)) = store w
   \<and> createdOrders (calls (snd (getOrder svc ctx oid w))) = createdOrders (calls w)
   \<and> addedPayments (calls (snd (getOrder svc ctx oid w))) = addedPayments (calls w)"
  by (simp add: getOrder_def issue_def createdOrders_append addedPayments_append
      split: option.splits)

lemma getPaymentMethod_frame:
  "store (snd (getPaymentMethod svc ctx code w)) = store w
   \<and> createdOrders (calls (snd (getPaymentMethod svc ctx code w))) = createdOrders (calls w)
   \<and> addedPayments (calls (snd (getPaymentMethod svc ctx code w))) = addedPayments (calls w)"
  by (simp add: getPaymentMethod_def issue_def createdOrders_append addedPayments_append
      split: option.splits)

lemma canTransitionTo_frame:
  "store (snd (canTransitionTo svc ctx oid st w)) = store w
   \<and> createdOrders (calls (snd (canTransitionTo svc ctx oid st w))) = createdOrders (calls w)
   \<and> addedPayments (calls (snd (canTransitionTo svc ctx oid st w))) = addedPayments (calls w)"
  by (simp add: canTransitionTo_def issue_def Let_def createdOrders_append addedPayments_append
      split: option.splits)

text \<open>The checks of the first part only read: they leave the store as it is, create no
  provider order and add no payment.\<close>

lemma validateIntent_frame:
  "store (snd (validateIntent svc ctx input w)) = store w
   \<and> createdOrders (calls (snd (validateIntent svc ctx input w))) = createdOrders (calls w)
   \<and> addedPayments (calls (snd (validateIntent svc ctx input w))) = addedPayments (calls w)"
  by (simp add: validateIntent_def Let_def case_prod_beta getOrder_frame getPaymentMethod_frame
      canTransitionTo_frame issue_def logger_def createdOrders_append addedPayments_append
      split: option.split sum.split)

text \<open>
  Claim C8. Once the checks of \<open>createPaymentIntent\<close> have passed, the amount to pay is the
  order's total with tax minus the total covered by its payments. When it is zero, no
  provider order is created: one payment of amount zero and status Settled is handed to the
  order service under an administrator context, and (the order service accepting it) the
  redirect URL is returned. Otherwise exactly one provider order is created, for that
  amount, no payment is added, and the result is the checkout URL of the created order (an
  exception when the created order has none).
\<close>

theorem createPaymentIntent_settle_or_create:
  assumes "validateIntent svc ctx input w = (Continue v, w1)"
    and "totalWithTax (v_order v) - totalCoveredByPayments svc (v_order v) = 0
         \<and> needsTransition (v_order v) \<longrightarrow>
           orderService_transitionToState svc (adminCtx ctx (languageCode ctx))
             (order_id (v_order v)) ArrangingPayment (store w) = (Inr moved, s1)"
    and "totalWithTax (v_order v) - totalCoveredByPayments svc (v_order v) = 0 \<longrightarrow>
           orderService_addPaymentToOrder svc (adminCtx ctx (languageCode ctx))
             (order_id (v_order v))
             (paymentInput 0 settledWithoutMollie (pm_code (v_paymentMethod v)) Settled)
             (if needsTransition (v_order v) then s1 else store w) = (Inr order1, s2)"
    and "totalWithTax (v_order v) - totalCoveredByPayments svc (v_order v) \<noteq> 0 \<longrightarrow>
           mollie_orders_create svc (v_apiKey v) (orderInput svc ctx input v) (store w)
             = (Some mollieOrder, s3)"
  shows "(totalWithTax (v_order v) - totalCoveredByPayments svc (v_order v) = 0 \<longrightarrow>
            fst (createPaymentIntent svc ctx input w) = Inr (MolliePaymentIntent (v_redirectUrl v))
          \<and> createdOrders (calls (snd (createPaymentIntent svc ctx input w)))
              = createdOrders (calls w)
          \<and> addedPayments (calls (snd (createPaymentIntent svc ctx input w)))
              = addedPayments (calls w)
                @ [paymentInput 0 settledWithoutMollie (pm_code (v_paymentMethod v)) Settled]
          \<and> calls (snd (createPaymentIntent svc ctx input w))
              = calls w1
                @ (if needsTransition (v_order v)
                   then [TransitionToState (adminCtx ctx (languageCode ctx))
                           (order_id (v_order v)) ArrangingPayment]
                   else [])
                @ [AddPaymentToOrder (adminCtx ctx (languageCode ctx)) (order_id (v_order v))
                     (paymentInput 0 settledWithoutMollie (pm_code (v_paymentMethod v)) Settled)])
       \<and> (totalWithTax (v_order v) - totalCoveredByPayments svc (v_order v) \<noteq> 0 \<longrightarrow>
            createdOrders (calls (snd (createPaymentIntent svc ctx input w)))
              = createdOrders (calls w) @ [orderInput svc ctx input v]
          \<and> cp_amount (orderInput svc ctx input v)
              = toAmount svc (totalWithTax (v_order v) - totalCoveredByPayments svc (v_order v))
                  (currencyCode (v_order v))
          \<and> addedPayments (calls (snd (createPaymentIntent svc ctx input w)))
              = addedPayments (calls w)
          \<and> fst (createPaymentIntent svc ctx input w)
              = (case truthy (mo_checkoutUrl mollieOrder) of
                   None \<Rightarrow> Inl NoCheckoutUrlError
                 | Some url \<Rightarrow> Inr (MolliePaymentIntent url)))"
proof -
  let ?due = "totalWithTax (v_order v) - totalCoveredByPayments svc (v_order v)"
  let ?admin = "adminCtx ctx (languageCode ctx)"
  let ?zero = "paymentInput 0 settledWithoutMollie (pm_code (v_paymentMethod v)) Settled"
  have frame: "store w1 = store w" "createdOrders (calls w1) = createdOrders (calls w)"
    "addedPayments (calls w1) = addedPayments (calls w)"
    using validateIntent_frame [of svc ctx input w] assms(1) by simp_all
  have run: "createPaymentIntent svc ctx input w = settleOrCreateOrder svc ctx input v w1"
    by (simp add: createPaymentIntent_def assms(1))
  show ?thesis
  proof (cases "?due = 0")
    case True
    have "addPayment svc ?admin (v_order v) 0 settledWithoutMollie
            (pm_code (v_paymentMethod v)) Settled w1
          = (Inr order1,
             w1\<lparr>store := s2,
                calls := calls w1
                  @ (if needsTransition (v_order v)
                     then [TransitionToState ?admin (order_id (v_order v)) ArrangingPayment]
                     else [])
                  @ [AddPaymentToOrder ?admin (order_id (v_order v)) ?zero]\<rparr>)"
      using assms(2,3) True
      by (intro addPayment_accepted [where moved = moved and sa = s1])
        (auto simp: frame split: if_splits)
    with True show ?thesis
      by (simp add: run settleOrCreateOrder_def Let_def frame createdOrders_append
          addedPayments_append)
  next
    case False
    with assms(4) have "mollie_orders_create svc (v_apiKey v) (orderInput svc ctx input v)
        (store w1) = (Some mollieOrder, s3)"
      by (simp add: frame)
    with False show ?thesis
      by (simp add: run settleOrCreateOrder_def Let_def frame createdOrders_append
          addedPayments_append issue_def logger_def orderInput_def
          split: prod.splits option.splits)
  qed
qed

section \<open>Properties of the promotion service\<close>

lemma updatePromotions_cache:
  "activePromotions (updatePromotions svc) = filter promo_enabled (table (connection svc))
   \<and> connection (updatePromotions svc) = connection svc"
  by (simp add: updatePromotions_def connection_find_enabled_def)

text \<open>
  Claim C10. After a \<open>createPromotion\<close> or an \<open>updatePromotion\<close> that returns a promotion,
  the cache \<open>activePromotions\<close> holds exactly the enabled promotions of the table, as
  a list and so as a set. An \<open>updatePromotion\<close> for an id that has no row throws the
  entity-not-found error and leaves the whole service, the cache included, as it was.
\<close>

theorem promotion_cache_after_write:
  "(createPromotion h ctx cinput svc = (Inr p, svc1) \<longrightarrow>
      activePromotions svc1 = filter promo_enabled (table (connection svc1))
      \<and> set (activePromotions svc1) = {q \<in> set (table (connection svc1)). promo_enabled q})
   \<and> (updatePromotion h ctx uinput svc = (Inr u, svc2) \<longrightarrow>
      activePromotions svc2 = filter promo_enabled (table (connection svc2))
      \<and> set (activePromotions svc2) = {q \<in> set (table (connection svc2)). promo_enabled q})
   \<and> (find (\<lambda>q. promo_id q = Some (upi_id uinput)) (table (connection svc)) = None \<longrightarrow>
      updatePromotion h ctx uinput svc
        = (Inl (EntityWithIdNotFound ''AdjustmentSource'' (upi_id uinput)), svc)
      \<and> activePromotions (snd (updatePromotion h ctx uinput svc)) = activePromotions svc)"
proof (intro conjI impI)
  assume c: "createPromotion h ctx cinput svc = (Inr p, svc1)"
  then obtain c1 where "svc1 = updatePromotions (svc\<lparr>connection := c1\<rparr>)"
    by (auto simp: createPromotion_def Let_def split: sum.splits prod.splits)
  then show l1: "activePromotions svc1 = filter promo_enabled (table (connection svc1))"
    by (simp add: updatePromotions_cache)
  then show "set (activePromotions svc1) = {q \<in> set (table (connection svc1)). promo_enabled q}"
    by auto
next
  assume u: "updatePromotion h ctx uinput svc = (Inr u, svc2)"
  then obtain c1 where "svc2 = updatePromotions (svc\<lparr>connection := c1\<rparr>)"
    by (auto simp: updatePromotion_def Let_def split: option.splits sum.splits prod.splits)
  then show l2: "activePromotions svc2 = filter promo_enabled (table (connection svc2))"
    by (simp add: updatePromotions_cache)
  then show "set (activePromotions svc2) = {q \<in> set (table (connection svc2)). promo_enabled q}"
    by auto
next
  assume n: "find (\<lambda>q. promo_id q = Some (upi_id uinput)) (table (connection svc)) = None"
  then show e: "updatePromotion h ctx uinput svc
      = (Inl (EntityWithIdNotFound ''AdjustmentSource'' (upi_id uinput)), svc)"
    by (simp add: updatePromotion_def connection_findOne_def)
  then show "activePromotions (snd (updatePromotion h ctx uinput svc)) = activePromotions svc"
    by simp
qed

section \<open>The theorems on sample notifications\<close>

lemmas sample_defs = specServices_def shopCtx_def molliePm_def keylessPm_def capturingPm_def
  sampleOrder_def sampleMollieOrder_def sampleWorld_def samplePayment_def notification_def
  address1_def freshOrder_def arrangingOrder_def settledOrder_def settledElsewhere_def
  authorizedOrder_def authorizedElsewhere_def additionalOrder_def unplacedAuthorized_def
  placedAdding_def grownOrder_def backToAdding_def

lemmas store_defs = spec_transitionToState_def spec_addPaymentToOrder_def spec_settlePayment_def
  settleIn_def putOrder_def placeIfCovered_def coveredBy_def Let_def

lemmas handler_defs = handleMollieStatusUpdate_def reconcile_def addPayment_def
  settleExistingPayment_def mollieStatesThatRequireAction_def vendureStatesThatRequireAction_def
  webhookCtx_def adminCtx_def truthy_def argValue_def paymentInput_def partialOrder_def
  needsTransition_def logger_def issue_def spec_amountToCents_def digitValue_def Let_def

lemmas intent_defs = validateIntent_def getOrder_def getPaymentMethod_def canTransitionTo_def
  stripSlash_def hydratedRelations_def sampleIntent_def sampleValidated_def sampleCreated_def
  freeOrder_def spec_toMollieAddress_def truthy_def argValue_def needsTransition_def
  issue_def logger_def adminCtx_def Let_def

lemmas promo_defs = createPromotion_def updatePromotion_def updatePromotions_def
  connection_save_def connection_findOne_def connection_find_enabled_def assertFound_def
  parseOperationArgs_def getAdjustmentOperationByCode_def frameworkHelpers_def
  samplePromotions_def sampleCreate_def sampleUpdate_def omitOperations_def Let_def

text \<open>C9 on a payment method without API key.\<close>

theorem handleMollieStatusUpdate_no_apiKey_witness:
  "fst (handleMollieStatusUpdate specServices shopCtx (notification ''2'')
      (sampleWorld paid freshOrder)) = Inl (NoApiKeyError ''2'')
   \<and> calls (snd (handleMollieStatusUpdate specServices shopCtx (notification ''2'')
      (sampleWorld paid freshOrder))) = [PaymentMethodFindOne shopCtx ''2'']
   \<and> store (snd (handleMollieStatusUpdate specServices shopCtx (notification ''2'')
      (sampleWorld paid freshOrder))) = store (sampleWorld paid freshOrder)"
proof -
  have h1: "paymentMethodService_findOne specServices shopCtx (paymentMethodId (notification ''2''))
          (store (sampleWorld paid freshOrder)) = Some keylessPm"
    by (simp add: sample_defs)
  have h2: "argValue ''apiKey'' keylessPm = None \<or> argValue ''apiKey'' keylessPm = Some []"
    by (simp add: argValue_def sample_defs)
  show ?thesis
    using handleMollieStatusUpdate_no_apiKey [OF h1 h2]
    by (simp add: sample_defs)
qed

text \<open>C1 on an expired provider order.\<close>

theorem handleMollieStatusUpdate_gates_no_op_witness:
  "fst (handleMollieStatusUpdate specServices shopCtx (notification ''1'')
      (sampleWorld expired freshOrder)) = Inr ()
   \<and> store (snd (handleMollieStatusUpdate specServices shopCtx (notification ''1'')
      (sampleWorld expired freshOrder))) = store (sampleWorld expired freshOrder)
   \<and> calls (snd (handleMollieStatusUpdate specServices shopCtx (notification ''1'')
      (sampleWorld expired freshOrder)))
       = [PaymentMethodFindOne shopCtx ''1'', MollieOrdersGet ''test_key'' ''ord_1'',
          OrderFindOneByCode (adminCtx shopCtx ''nl'') ''ORDER7'']
   \<and> length (logs (snd (handleMollieStatusUpdate specServices shopCtx (notification ''1'')
      (sampleWorld expired freshOrder)))) = 3"
proof -
  have h1: "paymentMethodService_findOne specServices shopCtx (paymentMethodId (notification ''1''))
          (store (sampleWorld expired freshOrder)) = Some molliePm"
    by (simp add: sample_defs)
  have h2: "truthy (argValue ''apiKey'' molliePm) = Some ''test_key''"
    by (simp add: truthy_def argValue_def sample_defs)
  have h3: "mollie_orders_get specServices ''test_key'' (orderId (notification ''1''))
          (store (sampleWorld expired freshOrder)) = Some (sampleMollieOrder expired)"
    by (simp add: sample_defs)
  have h4: "orderService_findOneByCode specServices (webhookCtx shopCtx (sampleMollieOrder expired))
          (mo_orderNumber (sampleMollieOrder expired)) (store (sampleWorld expired freshOrder)) = Some freshOrder"
    by (simp add: sample_defs)
  have h5: "mo_status (sampleMollieOrder expired) \<notin> {authorized, paid, completed}
          \<or> order_state freshOrder \<notin> {AddingItems, ArrangingPayment,
               ArrangingAdditionalPayment, PaymentAuthorized, Draft}"
    by (simp add: sample_defs)
  show ?thesis
    using handleMollieStatusUpdate_gates_no_op [OF h1 h2 h3 h4 h5]
    by (simp add: sample_defs webhookCtx_def adminCtx_def truthy_def)
qed

text \<open>C2 on a placed order whose only payment belongs to another provider order.\<close>

theorem handleMollieStatusUpdate_duplicate_payment_witness:
  "fst (handleMollieStatusUpdate specServices shopCtx (notification ''1'')
      (sampleWorld paid settledElsewhere)) = Inr ()
   \<and> store (snd (handleMollieStatusUpdate specServices shopCtx (notification ''1'')
      (sampleWorld paid settledElsewhere))) = store (sampleWorld paid settledElsewhere)
   \<and> calls (snd (handleMollieStatusUpdate specServices shopCtx (notification ''1'')
      (sampleWorld paid settledElsewhere)))
       = [PaymentMethodFindOne shopCtx ''1'', MollieOrdersGet ''test_key'' ''ord_1'',
          OrderFindOneByCode (adminCtx shopCtx ''nl'') ''ORDER7'']
   \<and> logs (snd (handleMollieStatusUpdate specServices shopCtx (notification ''1'')
      (sampleWorld paid settledElsewhere)))
       = [(Info, ReceivedStatusUpdate ''default-channel'' ''ord_1''),
          (Info, ProcessingStatus paid ''ORDER7'' ''default-channel'' ''ord_1''),
          (Error, AlreadyPaidShouldRefund ''ORDER7'' ''ord_1'')]"
proof -
  have h1: "paymentMethodService_findOne specServices shopCtx (paymentMethodId (notification ''1''))
          (store (sampleWorld paid settledElsewhere)) = Some molliePm"
    by (simp add: sample_defs)
  have h2: "truthy (argValue ''apiKey'' molliePm) = Some ''test_key''"
    by (simp add: truthy_def argValue_def sample_defs)
  have h3: "mollie_orders_get specServices ''test_key'' (orderId (notification ''1''))
          (store (sampleWorld paid settledElsewhere)) = Some (sampleMollieOrder paid)"
    by (simp add: sample_defs)
  have h4: "orderService_findOneByCode specServices (webhookCtx shopCtx (sampleMollieOrder paid))
          (mo_orderNumber (sampleMollieOrder paid)) (store (sampleWorld paid settledElsewhere)) = Some settledElsewhere"
    by (simp add: sample_defs)
  have h5: "mo_status (sampleMollieOrder paid) \<in> {authorized, paid, completed}"
    by (simp add: sample_defs)
  have h6: "orderPlacedAt settledElsewhere \<noteq> None"
    by (simp add: sample_defs)
  have h7: "\<forall>p \<in> set (payments settledElsewhere).
          transactionId p \<noteq> mo_id (sampleMollieOrder paid)"
    by (simp add: sample_defs)
  show ?thesis
    using handleMollieStatusUpdate_duplicate_payment [OF h1 h2 h3 h4 h5 h6 h7]
    by (simp add: sample_defs resolved_def logger_def webhookCtx_def adminCtx_def truthy_def)
qed

text \<open>C7 on a completed provider order for an order still adding items, without
  auto-capture.\<close>

theorem handleMollieStatusUpdate_unhandled_witness:
  "fst (handleMollieStatusUpdate specServices shopCtx (notification ''1'')
      (sampleWorld completed freshOrder)) = Inl (UnhandledTransitionError completed ''ORDER7'' AddingItems)
   \<and> store (snd (handleMollieStatusUpdate specServices shopCtx (notification ''1'')
      (sampleWorld completed freshOrder))) = store (sampleWorld completed freshOrder)
   \<and> calls (snd (handleMollieStatusUpdate specServices shopCtx (notification ''1'')
      (sampleWorld completed freshOrder)))
       = [PaymentMethodFindOne shopCtx ''1'', MollieOrdersGet ''test_key'' ''ord_1'',
          OrderFindOneByCode (adminCtx shopCtx ''nl'') ''ORDER7'']"
proof -
  have h1: "paymentMethodService_findOne specServices shopCtx (paymentMethodId (notification ''1''))
          (store (sampleWorld completed freshOrder)) = Some molliePm"
    by (simp add: sample_defs)
  have h2: "truthy (argValue ''apiKey'' molliePm) = Some ''test_key''"
    by (simp add: truthy_def argValue_def sample_defs)
  have h3: "mollie_orders_get specServices ''test_key'' (orderId (notification ''1''))
          (store (sampleWorld completed freshOrder)) = Some (sampleMollieOrder completed)"
    by (simp add: sample_defs)
  have h4: "orderService_findOneByCode specServices (webhookCtx shopCtx (sampleMollieOrder completed))
          (mo_orderNumber (sampleMollieOrder completed)) (store (sampleWorld completed freshOrder)) = Some freshOrder"
    by (simp add: sample_defs)
  have h5: "mo_status (sampleMollieOrder completed) \<in> {authorized, paid, completed}"
    by (simp add: sample_defs)
  have h6: "orderPlacedAt freshOrder = None
          \<or> (\<exists>p \<in> set (payments freshOrder).
                transactionId p = mo_id (sampleMollieOrder completed))"
    by (simp add: sample_defs)
  have h7: "order_state freshOrder \<in> {AddingItems, ArrangingPayment,
          ArrangingAdditionalPayment, PaymentAuthorized, Draft}"
    by (simp add: sample_defs)
  have h8: "mo_status (sampleMollieOrder completed) \<noteq> paid"
    by (simp add: sample_defs)
  have h9: "\<not> (order_state freshOrder = AddingItems
             \<and> mo_status (sampleMollieOrder completed) = authorized)"
    by (simp add: sample_defs)
  have h10: "\<not> (order_state freshOrder = PaymentAuthorized
             \<and> mo_status (sampleMollieOrder completed) = completed)"
    by (simp add: sample_defs)
  show ?thesis
    using handleMollieStatusUpdate_unhandled [OF h1 h2 h3 h4 h5 h6 h7 h8 h9 h10]
    by (simp add: sample_defs resolved_def webhookCtx_def adminCtx_def truthy_def argValue_def)
qed

text \<open>C4, as amended, on a paid provider order for an order still adding items: the
  payment covers the total and the reference store settles the order.\<close>

theorem handleMollieStatusUpdate_paid_witness:
  "fst (handleMollieStatusUpdate specServices shopCtx (notification ''1'')
      (sampleWorld paid freshOrder)) = Inr ()
   \<and> addedPayments (calls (snd (handleMollieStatusUpdate specServices shopCtx (notification ''1'')
      (sampleWorld paid freshOrder))))
       = [paymentInput 1000 (partialOrder (sampleMollieOrder paid)) ''mollie'' Settled]
   \<and> settledPayments (calls (snd (handleMollieStatusUpdate specServices shopCtx (notification ''1'')
      (sampleWorld paid freshOrder)))) = []
   \<and> store (snd (handleMollieStatusUpdate specServices shopCtx (notification ''1'')
      (sampleWorld paid freshOrder))) = store (sampleWorld paid settledOrder)"
proof -
  have h1: "paymentMethodService_findOne specServices shopCtx (paymentMethodId (notification ''1''))
          (store (sampleWorld paid freshOrder)) = Some molliePm"
    by (simp add: sample_defs)
  have h2: "truthy (argValue ''apiKey'' molliePm) = Some ''test_key''"
    by (simp add: truthy_def argValue_def sample_defs)
  have h3: "mollie_orders_get specServices ''test_key'' (orderId (notification ''1''))
          (store (sampleWorld paid freshOrder)) = Some (sampleMollieOrder paid)"
    by (simp add: sample_defs)
  have h4: "orderService_findOneByCode specServices (webhookCtx shopCtx (sampleMollieOrder paid))
          (mo_orderNumber (sampleMollieOrder paid)) (store (sampleWorld paid freshOrder)) = Some freshOrder"
    by (simp add: sample_defs)
  have h5: "mo_status (sampleMollieOrder paid) = paid"
    by (simp add: sample_defs)
  have h6: "order_state freshOrder \<in> {AddingItems, ArrangingPayment,
          ArrangingAdditionalPayment, PaymentAuthorized, Draft}"
    by (simp add: sample_defs)
  have h7: "orderPlacedAt freshOrder = None
          \<or> (\<exists>p \<in> set (payments freshOrder).
                transactionId p = mo_id (sampleMollieOrder paid))"
    by (simp add: sample_defs)
  have h8: "needsTransition freshOrder \<longrightarrow>
          orderService_transitionToState specServices (webhookCtx shopCtx (sampleMollieOrder paid))
            (order_id freshOrder) ArrangingPayment
            (store (sampleWorld paid freshOrder))
          = (Inr arrangingOrder,
             store (sampleWorld paid arrangingOrder))"
    by (simp add: sample_defs store_defs)
  have h9: "orderService_addPaymentToOrder specServices (webhookCtx shopCtx (sampleMollieOrder paid))
          (order_id freshOrder)
          (paymentInput (amountToCents specServices (mo_amount (sampleMollieOrder paid)))
            (partialOrder (sampleMollieOrder paid)) (pm_code molliePm) Settled)
          (if needsTransition freshOrder
           then store (sampleWorld paid arrangingOrder)
           else store (sampleWorld paid freshOrder))
          = (Inr settledOrder,
             store (sampleWorld paid settledOrder))"
    by (simp add: sample_defs store_defs needsTransition_def paymentInput_def partialOrder_def
        spec_amountToCents_def digitValue_def)
  show ?thesis
    using handleMollieStatusUpdate_paid [OF h1 h2 h3 h4 h5 h6 h7 h8 h9]
    by (simp add: sample_defs paymentInput_def partialOrder_def spec_amountToCents_def digitValue_def)
qed

text \<open>C5, as amended, on an authorized provider order with auto-capture configured.\<close>

theorem handleMollieStatusUpdate_authorized_witness:
  "addedPayments (calls (snd (handleMollieStatusUpdate specServices shopCtx (notification ''3'')
      (sampleWorld authorized freshOrder))))
       = [paymentInput 1000 (partialOrder (sampleMollieOrder authorized)) ''mollie-capture''
            Authorized]
   \<and> settledPayments (calls (snd (handleMollieStatusUpdate specServices shopCtx (notification ''3'')
      (sampleWorld authorized freshOrder)))) = [''7-p'']
   \<and> calls (snd (handleMollieStatusUpdate specServices shopCtx (notification ''3'')
      (sampleWorld authorized freshOrder)))
       = [PaymentMethodFindOne shopCtx ''3'', MollieOrdersGet ''test_key'' ''ord_1'',
          OrderFindOneByCode (adminCtx shopCtx ''nl'') ''ORDER7'',
          TransitionToState (adminCtx shopCtx ''nl'') ''7'' ArrangingPayment,
          AddPaymentToOrder (adminCtx shopCtx ''nl'') ''7''
            (paymentInput 1000 (partialOrder (sampleMollieOrder authorized)) ''mollie-capture''
               Authorized),
          Hydrate (adminCtx shopCtx ''nl'') ''7'' [''payments''],
          SettlePayment (adminCtx shopCtx ''nl'') ''7-p'']
   \<and> fst (handleMollieStatusUpdate specServices shopCtx (notification ''3'')
      (sampleWorld authorized freshOrder)) = Inr ()"
proof -
  have h1: "paymentMethodService_findOne specServices shopCtx (paymentMethodId (notification ''3''))
          (store (sampleWorld authorized freshOrder)) = Some capturingPm"
    by (simp add: sample_defs)
  have h2: "truthy (argValue ''apiKey'' capturingPm) = Some ''test_key''"
    by (simp add: truthy_def argValue_def sample_defs)
  have h3: "mollie_orders_get specServices ''test_key'' (orderId (notification ''3''))
          (store (sampleWorld authorized freshOrder)) = Some (sampleMollieOrder authorized)"
    by (simp add: sample_defs)
  have h4: "orderService_findOneByCode specServices (webhookCtx shopCtx (sampleMollieOrder authorized))
          (mo_orderNumber (sampleMollieOrder authorized)) (store (sampleWorld authorized freshOrder)) = Some freshOrder"
    by (simp add: sample_defs)
  have h5: "mo_status (sampleMollieOrder authorized) = authorized"
    by (simp add: sample_defs)
  have h6: "order_state freshOrder = AddingItems"
    by (simp add: sample_defs)
  have h7: "orderPlacedAt freshOrder = None
          \<or> (\<exists>p \<in> set (payments freshOrder).
                transactionId p = mo_id (sampleMollieOrder authorized))"
    by (simp add: sample_defs)
  have h8: "orderService_transitionToState specServices (webhookCtx shopCtx (sampleMollieOrder authorized))
          (order_id freshOrder) ArrangingPayment
          (store (sampleWorld authorized freshOrder))
          = (Inr arrangingOrder,
             store (sampleWorld authorized arrangingOrder))"
    by (simp add: sample_defs store_defs)
  have h9: "orderService_addPaymentToOrder specServices (webhookCtx shopCtx (sampleMollieOrder authorized))
          (order_id freshOrder)
          (paymentInput (amountToCents specServices (mo_amount (sampleMollieOrder authorized)))
            (partialOrder (sampleMollieOrder authorized)) (pm_code capturingPm) Authorized)
          (store (sampleWorld authorized arrangingOrder))
          = (Inr authorizedOrder,
             store (sampleWorld authorized authorizedOrder))"
    by (simp add: sample_defs store_defs paymentInput_def partialOrder_def
        spec_amountToCents_def digitValue_def)
  have h10: "argValue ''autoCapture'' capturingPm = Some ''true'' \<longrightarrow>
          find (\<lambda>p. transactionId p = mo_id (sampleMollieOrder authorized))
            (payments (entityHydrator_hydrate specServices (webhookCtx shopCtx (sampleMollieOrder authorized))
               authorizedOrder [''payments'']
               (store (sampleWorld authorized authorizedOrder))))
          = Some (samplePayment ''ord_1'' Authorized)"
    by (simp add: sample_defs argValue_def)
  show ?thesis
    using handleMollieStatusUpdate_authorized [OF h1 h2 h3 h4 h5 h6 h7 h8 h9 h10]
    by (simp add: sample_defs store_defs resolved_def webhookCtx_def adminCtx_def truthy_def
        argValue_def paymentInput_def partialOrder_def spec_amountToCents_def digitValue_def)
qed

text \<open>C6, as amended, on a completed provider order whose payment is authorized, and on
  an order in PaymentAuthorized without placement timestamp and without payments.\<close>

theorem handleMollieStatusUpdate_completed_witness:
  "(fst (handleMollieStatusUpdate specServices shopCtx (notification ''1'')
      (sampleWorld completed authorizedOrder)) = Inr ()
    \<and> calls (snd (handleMollieStatusUpdate specServices shopCtx (notification ''1'')
      (sampleWorld completed authorizedOrder)))
        = [PaymentMethodFindOne shopCtx ''1'', MollieOrdersGet ''test_key'' ''ord_1'',
           OrderFindOneByCode (adminCtx shopCtx ''nl'') ''ORDER7'',
           Hydrate (adminCtx shopCtx ''nl'') ''7'' [''payments''],
           SettlePayment (adminCtx shopCtx ''nl'') ''7-p''])
   \<and> (fst (handleMollieStatusUpdate specServices shopCtx (notification ''1'')
      (sampleWorld completed unplacedAuthorized))
          = Inl (PaymentNotFoundError ''ord_1'' ''ORDER7'')
    \<and> calls (snd (handleMollieStatusUpdate specServices shopCtx (notification ''1'')
      (sampleWorld completed unplacedAuthorized)))
        = [PaymentMethodFindOne shopCtx ''1'', MollieOrdersGet ''test_key'' ''ord_1'',
           OrderFindOneByCode (adminCtx shopCtx ''nl'') ''ORDER7'',
           Hydrate (adminCtx shopCtx ''nl'') ''7'' [''payments'']])"
proof -
  have a1: "paymentMethodService_findOne specServices shopCtx (paymentMethodId (notification ''1''))
          (store (sampleWorld completed authorizedOrder)) = Some molliePm"
    by (simp add: sample_defs)
  have a2: "truthy (argValue ''apiKey'' molliePm) = Some ''test_key''"
    by (simp add: truthy_def argValue_def sample_defs)
  have a3: "mollie_orders_get specServices ''test_key'' (orderId (notification ''1''))
          (store (sampleWorld completed authorizedOrder)) = Some (sampleMollieOrder completed)"
    by (simp add: sample_defs)
  have a4: "orderService_findOneByCode specServices (webhookCtx shopCtx (sampleMollieOrder completed))
          (mo_orderNumber (sampleMollieOrder completed)) (store (sampleWorld completed authorizedOrder)) = Some authorizedOrder"
    by (simp add: sample_defs)
  have a5: "mo_status (sampleMollieOrder completed) = completed"
    by (simp add: sample_defs)
  have a6: "order_state authorizedOrder = PaymentAuthorized"
    by (simp add: sample_defs)
  have a7: "orderPlacedAt authorizedOrder = None
          \<or> (\<exists>p \<in> set (payments authorizedOrder).
                transactionId p = mo_id (sampleMollieOrder completed))"
    by (simp add: sample_defs)
  have b1: "paymentMethodService_findOne specServices shopCtx (paymentMethodId (notification ''1''))
          (store (sampleWorld completed unplacedAuthorized)) = Some molliePm"
    by (simp add: sample_defs)
  have b2: "truthy (argValue ''apiKey'' molliePm) = Some ''test_key''"
    by (simp add: truthy_def argValue_def sample_defs)
  have b3: "mollie_orders_get specServices ''test_key'' (orderId (notification ''1''))
          (store (sampleWorld completed unplacedAuthorized)) = Some (sampleMollieOrder completed)"
    by (simp add: sample_defs)
  have b4: "orderService_findOneByCode specServices (webhookCtx shopCtx (sampleMollieOrder completed))
          (mo_orderNumber (sampleMollieOrder completed)) (store (sampleWorld completed unplacedAuthorized)) = Some unplacedAuthorized"
    by (simp add: sample_defs)
  have b5: "mo_status (sampleMollieOrder completed) = completed"
    by (simp add: sample_defs)
  have b6: "order_state unplacedAuthorized = PaymentAuthorized"
    by (simp add: sample_defs)
  have b7: "orderPlacedAt unplacedAuthorized = None
          \<or> (\<exists>p \<in> set (payments unplacedAuthorized).
                transactionId p = mo_id (sampleMollieOrder completed))"
    by (simp add: sample_defs)
  show ?thesis
    using handleMollieStatusUpdate_completed [OF a1 a2 a3 a4 a5 a6 a7, THEN conjunct2]
      handleMollieStatusUpdate_completed [OF b1 b2 b3 b4 b5 b6 b7, THEN conjunct2]
    by (simp add: sample_defs store_defs resolved_def webhookCtx_def adminCtx_def truthy_def)
qed

text \<open>C3, as amended, on the second delivery of a paid notification after the order was
  settled.\<close>

theorem handleMollieStatusUpdate_no_second_payment_witness:
  "addedPayments (calls (snd (handleMollieStatusUpdate specServices shopCtx (notification ''1'')
      (sampleWorld paid settledOrder)))) = []"
proof -
  have h1: "paymentMethodService_findOne specServices shopCtx (paymentMethodId (notification ''1''))
          (store (sampleWorld paid settledOrder)) = Some molliePm"
    by (simp add: sample_defs)
  have h2: "truthy (argValue ''apiKey'' molliePm) = Some ''test_key''"
    by (simp add: truthy_def argValue_def sample_defs)
  have h3: "mollie_orders_get specServices ''test_key'' (orderId (notification ''1''))
          (store (sampleWorld paid settledOrder)) = Some (sampleMollieOrder paid)"
    by (simp add: sample_defs)
  have h4: "orderService_findOneByCode specServices (webhookCtx shopCtx (sampleMollieOrder paid))
          (mo_orderNumber (sampleMollieOrder paid)) (store (sampleWorld paid settledOrder)) = Some settledOrder"
    by (simp add: sample_defs)
  have h5: "\<exists>p \<in> set (payments settledOrder).
          transactionId p = mo_id (sampleMollieOrder paid)"
    by (simp add: sample_defs)
  have h6: "\<not> (order_state settledOrder
               \<in> {AddingItems, ArrangingPayment, ArrangingAdditionalPayment, PaymentAuthorized,
                   Draft}
             \<and> mo_status (sampleMollieOrder paid) = paid)"
    by (simp add: sample_defs)
  have h7: "\<not> (order_state settledOrder = AddingItems
             \<and> mo_status (sampleMollieOrder paid) = authorized)"
    by (simp add: sample_defs)
  show ?thesis
    using handleMollieStatusUpdate_no_second_payment [OF h1 h2 h3 h4 h5 h6 h7]
    by (simp add: sample_defs)
qed

subsection \<open>Notifications on which the claims as first stated fail\<close>

text \<open>C3 as first stated: the paid notification of a provider order over 10.00 is delivered
  twice for an order whose total has grown to 15.00. The first delivery attaches a payment
  with the provider order's id and leaves the order in ArrangingPayment; the second
  delivery attaches a second payment with the same transaction id. Likewise an authorized
  notification for an order that is back in AddingItems with a payment of that provider
  order attaches a second one.\<close>

theorem handleMollieStatusUpdate_twice_counterexample:
  "transactionIds (store (snd (handleMollieStatusUpdate specServices shopCtx (notification ''1'')
      (sampleWorld paid grownOrder)))) = [[''ord_1'']]
   \<and> transactionIds (store (snd (handleMollieStatusUpdate specServices shopCtx (notification ''1'')
      (snd (handleMollieStatusUpdate specServices shopCtx (notification ''1'')
      (sampleWorld paid grownOrder)))))) = [[''ord_1'', ''ord_1'']]
   \<and> length (addedPayments (calls (snd (handleMollieStatusUpdate specServices shopCtx (notification ''1'')
      (snd (handleMollieStatusUpdate specServices shopCtx (notification ''1'')
      (sampleWorld paid grownOrder))))))) = 2
   \<and> transactionIds (store (sampleWorld authorized backToAdding)) = [[''ord_1'']]
   \<and> transactionIds (store (snd (handleMollieStatusUpdate specServices shopCtx (notification ''1'')
      (sampleWorld authorized (backToAdding))))) = [[''ord_1'', ''ord_1'']]"
  by (simp add: sample_defs store_defs handler_defs transactionIds_def)

text \<open>C4 as first stated: status paid, eligible state ArrangingAdditionalPayment, but the
  order is placed and its payment belongs to another provider order: nothing is attached.\<close>

theorem handleMollieStatusUpdate_paid_counterexample:
  "mo_status (sampleMollieOrder paid) = paid
   \<and> order_state additionalOrder = ArrangingAdditionalPayment
   \<and> fst (handleMollieStatusUpdate specServices shopCtx (notification ''1'')
      (sampleWorld paid additionalOrder)) = Inr ()
   \<and> addedPayments (calls (snd (handleMollieStatusUpdate specServices shopCtx (notification ''1'')
      (sampleWorld paid additionalOrder)))) = []
   \<and> transactionIds (store (snd (handleMollieStatusUpdate specServices shopCtx (notification ''1'')
      (sampleWorld paid additionalOrder)))) = [[''ord_0'']]"
  by (simp add: sample_defs store_defs handler_defs transactionIds_def)

text \<open>C5 as first stated: status authorized, state AddingItems, but the order carries a
  placement timestamp and no payment: no payment is created.\<close>

theorem handleMollieStatusUpdate_authorized_counterexample:
  "mo_status (sampleMollieOrder authorized) = authorized
   \<and> order_state placedAdding = AddingItems
   \<and> fst (handleMollieStatusUpdate specServices shopCtx (notification ''1'')
      (sampleWorld authorized placedAdding)) = Inr ()
   \<and> addedPayments (calls (snd (handleMollieStatusUpdate specServices shopCtx (notification ''1'')
      (sampleWorld authorized placedAdding)))) = []
   \<and> transactionIds (store (snd (handleMollieStatusUpdate specServices shopCtx (notification ''1'')
      (sampleWorld authorized placedAdding)))) = [[]]"
  by (simp add: sample_defs store_defs handler_defs transactionIds_def)

text \<open>C6 as first stated: status completed, state PaymentAuthorized, no payment with the
  provider order's id: the placed order stops at the duplicate-payment gate, so the
  handler returns normally, without hydrating the order and without the payment-not-found
  error.\<close>

theorem handleMollieStatusUpdate_completed_counterexample:
  "mo_status (sampleMollieOrder completed) = completed
   \<and> order_state authorizedElsewhere = PaymentAuthorized
   \<and> fst (handleMollieStatusUpdate specServices shopCtx (notification ''1'')
      (sampleWorld completed authorizedElsewhere)) = Inr ()
   \<and> calls (snd (handleMollieStatusUpdate specServices shopCtx (notification ''1'')
      (sampleWorld completed authorizedElsewhere)))
       = [PaymentMethodFindOne shopCtx ''1'', MollieOrdersGet ''test_key'' ''ord_1'',
          OrderFindOneByCode (adminCtx shopCtx ''nl'') ''ORDER7'']"
  by (simp add: sample_defs store_defs handler_defs)

text \<open>C8 on an order with nothing left to pay and on an order of 10.00 without payments.\<close>

theorem createPaymentIntent_settle_or_create_witness:
  "(fst (createPaymentIntent specServices shopCtx sampleIntent (sampleWorld paid freeOrder))
      = Inr (MolliePaymentIntent ''https://shop.example/order/ORDER7'')
    \<and> createdOrders (calls (snd (createPaymentIntent specServices shopCtx sampleIntent
          (sampleWorld paid freeOrder)))) = []
    \<and> addedPayments (calls (snd (createPaymentIntent specServices shopCtx sampleIntent
          (sampleWorld paid freeOrder))))
        = [paymentInput 0 settledWithoutMollie ''mollie'' Settled])
   \<and> (createdOrders (calls (snd (createPaymentIntent specServices shopCtx sampleIntent
          (sampleWorld paid freshOrder))))
        = [orderInput specServices shopCtx sampleIntent
             (sampleValidated freshOrder)]
    \<and> cp_amount (orderInput specServices shopCtx sampleIntent
          (sampleValidated freshOrder))
        = \<lparr>amt_value = ''10.00'', amt_currency = ''EUR''\<rparr>
    \<and> addedPayments (calls (snd (createPaymentIntent specServices shopCtx sampleIntent
          (sampleWorld paid freshOrder)))) = []
    \<and> fst (createPaymentIntent specServices shopCtx sampleIntent
          (sampleWorld paid freshOrder))
        = Inr (MolliePaymentIntent ''https://mollie.example/checkout/ord_ORDER7''))"
proof -
  let ?admin = "adminCtx shopCtx (languageCode shopCtx)"
  let ?free = "sampleWorld paid freeOrder"
  let ?due = "sampleWorld paid freshOrder"
  let ?settled = "freeOrder\<lparr>order_state := PaymentSettled, orderPlacedAt := Some 1,
                    payments := [\<lparr>payment_id = ''7-p'', transactionId = [], payment_amount = 0,
                                  payment_state = Settled\<rparr>]\<rparr>"
  have a1: "validateIntent specServices shopCtx sampleIntent ?free
              = (Continue (sampleValidated freeOrder),
                 snd (validateIntent specServices shopCtx sampleIntent ?free))"
    by (simp add: prod_eq_iff sample_defs intent_defs)
  have a2: "totalWithTax (v_order (sampleValidated freeOrder))
              - totalCoveredByPayments specServices (v_order (sampleValidated freeOrder)) = 0
            \<and> needsTransition (v_order (sampleValidated freeOrder)) \<longrightarrow>
            orderService_transitionToState specServices ?admin
              (order_id (v_order (sampleValidated freeOrder))) ArrangingPayment (store ?free)
              = (Inr (freeOrder\<lparr>order_state := ArrangingPayment\<rparr>),
                 store (sampleWorld paid (freeOrder\<lparr>order_state := ArrangingPayment\<rparr>)))"
    by (simp add: sample_defs intent_defs store_defs)
  have a3: "totalWithTax (v_order (sampleValidated freeOrder))
              - totalCoveredByPayments specServices (v_order (sampleValidated freeOrder)) = 0
            \<longrightarrow>
            orderService_addPaymentToOrder specServices ?admin
              (order_id (v_order (sampleValidated freeOrder)))
              (paymentInput 0 settledWithoutMollie (pm_code (v_paymentMethod
                 (sampleValidated freeOrder))) Settled)
              (if needsTransition (v_order (sampleValidated freeOrder))
               then store (sampleWorld paid (freeOrder\<lparr>order_state := ArrangingPayment\<rparr>))
               else store ?free)
              = (Inr ?settled, store (sampleWorld paid ?settled))"
    by (simp add: sample_defs intent_defs store_defs paymentInput_def settledWithoutMollie_def)
  have a4: "totalWithTax (v_order (sampleValidated freeOrder))
              - totalCoveredByPayments specServices (v_order (sampleValidated freeOrder)) \<noteq> 0
            \<longrightarrow>
            mollie_orders_create specServices (v_apiKey (sampleValidated freeOrder))
              (orderInput specServices shopCtx sampleIntent (sampleValidated freeOrder))
              (store ?free) = (Some sampleCreated, store ?free)"
    by (simp add: sample_defs intent_defs store_defs)
  have b1: "validateIntent specServices shopCtx sampleIntent ?due
              = (Continue (sampleValidated freshOrder),
                 snd (validateIntent specServices shopCtx sampleIntent ?due))"
    by (simp add: prod_eq_iff sample_defs intent_defs)
  have b2: "totalWithTax (v_order (sampleValidated freshOrder))
              - totalCoveredByPayments specServices
                  (v_order (sampleValidated freshOrder)) = 0
            \<and> needsTransition (v_order (sampleValidated freshOrder))
            \<longrightarrow>
            orderService_transitionToState specServices ?admin
              (order_id (v_order (sampleValidated freshOrder)))
              ArrangingPayment (store ?due)
              = (Inr freeOrder, store ?due)"
    by (simp add: sample_defs intent_defs store_defs)
  have b3: "totalWithTax (v_order (sampleValidated freshOrder))
              - totalCoveredByPayments specServices
                  (v_order (sampleValidated freshOrder)) = 0
            \<longrightarrow>
            orderService_addPaymentToOrder specServices ?admin
              (order_id (v_order (sampleValidated freshOrder)))
              (paymentInput 0 settledWithoutMollie (pm_code (v_paymentMethod
                 (sampleValidated freshOrder))) Settled)
              (if needsTransition (v_order (sampleValidated freshOrder))
               then store ?due else store ?due)
              = (Inr freeOrder, store ?due)"
    by (simp add: sample_defs intent_defs store_defs)
  have b4: "totalWithTax (v_order (sampleValidated freshOrder))
              - totalCoveredByPayments specServices
                  (v_order (sampleValidated freshOrder)) \<noteq> 0
            \<longrightarrow>
            mollie_orders_create specServices
              (v_apiKey (sampleValidated freshOrder))
              (orderInput specServices shopCtx sampleIntent
                 (sampleValidated freshOrder))
              (store ?due)
              = (Some sampleCreated,
                 (store ?due)\<lparr>st_mollieOrders := st_mollieOrders (store ?due) @ [sampleCreated]\<rparr>)"
    by (simp add: sample_defs intent_defs store_defs orderInput_def sampleIntent_def
        spec_toAmount_def showNat.simps)
  have free: "totalWithTax (v_order (sampleValidated freeOrder))
                - totalCoveredByPayments specServices (v_order (sampleValidated freeOrder)) = 0"
    by (simp add: sample_defs intent_defs store_defs)
  have due: "totalWithTax (v_order (sampleValidated freshOrder))
               - totalCoveredByPayments specServices
                   (v_order (sampleValidated freshOrder)) \<noteq> 0"
    by (simp add: sample_defs intent_defs store_defs)
  have amount: "toAmount specServices
                  (totalWithTax (v_order (sampleValidated freshOrder))
                   - totalCoveredByPayments specServices
                       (v_order (sampleValidated freshOrder)))
                  (currencyCode (v_order (sampleValidated freshOrder)))
                = \<lparr>amt_value = ''10.00'', amt_currency = ''EUR''\<rparr>"
    by (simp add: sample_defs intent_defs store_defs spec_toAmount_def showNat.simps)
  have empty: "calls ?free = []" "calls ?due = []"
    by (simp_all add: sampleWorld_def)
  have known: "v_redirectUrl (sampleValidated freeOrder) = ''https://shop.example/order/ORDER7''"
    "pm_code (v_paymentMethod (sampleValidated freeOrder)) = ''mollie''"
    "truthy (mo_checkoutUrl sampleCreated) = Some ''https://mollie.example/checkout/ord_ORDER7''"
    by (simp_all add: sampleValidated_def sampleCreated_def molliePm_def truthy_def)
  note zero = createPaymentIntent_settle_or_create [OF a1 a2 a3 a4, THEN conjunct1,
      rule_format, OF free]
  note nonzero = createPaymentIntent_settle_or_create [OF b1 b2 b3 b4, THEN conjunct2,
      rule_format, OF due]
  show ?thesis
    using zero [THEN conjunct1] zero [THEN conjunct2, THEN conjunct1]
      zero [THEN conjunct2, THEN conjunct2, THEN conjunct1] nonzero
    by (simp add: empty known amount)
qed

text \<open>C10 on a table with one enabled and one disabled promotion: a created promotion, the
  disabled promotion enabled by an update, and an update for an id without row.\<close>

theorem promotion_cache_after_write_witness:
  "map promo_name (activePromotions (snd (createPromotion frameworkHelpers shopCtx sampleCreate
       samplePromotions))) = [''Summer sale'', ''Winter sale'']
   \<and> map promo_name (filter promo_enabled (table (connection (snd (createPromotion
       frameworkHelpers shopCtx sampleCreate samplePromotions)))))
       = [''Summer sale'', ''Winter sale'']
   \<and> map promo_name (activePromotions (snd (updatePromotion frameworkHelpers shopCtx
       (sampleUpdate 2) samplePromotions))) = [''Summer sale'', ''Old sale'']
   \<and> updatePromotion frameworkHelpers shopCtx (sampleUpdate 5) samplePromotions
       = (Inl (EntityWithIdNotFound ''AdjustmentSource'' 5), samplePromotions)"
proof -
  let ?c = "createPromotion frameworkHelpers shopCtx sampleCreate samplePromotions"
  let ?u = "updatePromotion frameworkHelpers shopCtx (sampleUpdate 2) samplePromotions"
  have c: "?c = (Inr (projr (fst ?c)), snd ?c)"
    by (simp add: prod_eq_iff promo_defs)
  have u: "?u = (Inr (projr (fst ?u)), snd ?u)"
    by (simp add: prod_eq_iff promo_defs)
  have n: "find (\<lambda>q. promo_id q = Some (upi_id (sampleUpdate 5)))
             (table (connection samplePromotions)) = None"
    by (simp add: promo_defs)
  have t: "map promo_name (filter promo_enabled (table (connection (snd ?c))))
             = [''Summer sale'', ''Winter sale'']"
    "map promo_name (filter promo_enabled (table (connection (snd ?u))))
             = [''Summer sale'', ''Old sale'']"
    by (simp_all add: promo_defs)
  from promotion_cache_after_write [where h = frameworkHelpers and ctx = shopCtx
      and cinput = sampleCreate and svc = samplePromotions and p = "projr (fst ?c)"
      and ?svc1.0 = "snd ?c" and uinput = "sampleUpdate 2" and u = "projr (fst ?u)"
      and ?svc2.0 = "snd ?u"]
    promotion_cache_after_write [where h = frameworkHelpers and ctx = shopCtx
      and cinput = sampleCreate and svc = samplePromotions and p = "projr (fst ?c)"
      and ?svc1.0 = "snd ?c" and uinput = "sampleUpdate 5" and u = "projr (fst ?u)"
      and ?svc2.0 = "snd ?u"]
  show ?thesis
    using c u n t by (simp add: sampleUpdate_def)
qed


end
